theory Spec2Isabelle
  imports Complex_Main "HOL-Library.Multiset"
begin

section \<open>Python values\<close>

text \<open>
  A Python \<open>str\<close> is a sequence of Unicode code points, so it is modelled as a list
  of natural numbers. The literals of \<open>app.py\<close> that are not ASCII (the labels, the
  recommendations, the chart titles) are written as their code points; the ASCII ones go
  through \<open>ascii\<close>.

  The numeric columns of the data frame are \<open>float64\<close>. A cell is modelled by the real
  number it holds; infinities and NaN (an empty CSV cell) are outside the model, so a row
  here is a row whose cells all hold a number. Comparisons and maxima of such numbers
  are exact, and so is the halving of \<open>threshold_high\<close> unless it underflows. The
  operations of the program that round are not computed here but taken as parameters:
  the mean of a Series (\<open>mean\<close>), and the product of the discount with 100
  (\<open>times100\<close>).
\<close>

type_synonym pystr = "nat list"

definition ascii :: "string \<Rightarrow> pystr" where
  "ascii s = map of_char s"

datatype py_error = TypeError | IndexError

text \<open>
  The cells of the column \<open>ASIN\<close>: \<open>read_csv\<close> makes the column \<open>int64\<close> when all
  its cells are written as integers, and a column of \<open>str\<close> otherwise (a column of
  another type is outside the model). \<open>py_format_id\<close> is the text that an f-string makes
  of such a cell.
\<close>

datatype pyid = IdStr pystr | IdInt int

fun dec_digits :: "nat \<Rightarrow> pystr" where
  "dec_digits n = (if n < 10 then [48 + n] else dec_digits (n div 10) @ [48 + n mod 10])"

declare dec_digits.simps [simp del]

definition py_str_int :: "int \<Rightarrow> pystr" where
  "py_str_int i = (if i < 0 then 45 # dec_digits (nat (- i)) else dec_digits (nat i))"

definition py_format_id :: "pyid \<Rightarrow> pystr" where
  "py_format_id v = (case v of IdStr s \<Rightarrow> s | IdInt i \<Rightarrow> py_str_int i)"

text \<open>
  \<open>a > b\<close> and \<open>a < b\<close> where \<open>a\<close> may be \<open>None\<close>: Python 3 raises TypeError when
  an order comparison meets \<open>None\<close>.
\<close>

definition py_gt :: "real option \<Rightarrow> real \<Rightarrow> py_error + bool" where
  "py_gt a b = (case a of None \<Rightarrow> Inl TypeError | Some x \<Rightarrow> Inr (x > b))"

definition py_lt :: "real option \<Rightarrow> real \<Rightarrow> py_error + bool" where
  "py_lt a b = (case a of None \<Rightarrow> Inl TypeError | Some x \<Rightarrow> Inr (x < b))"

text \<open>Sequencing of a computation that may raise: the first exception ends it.\<close>

definition bind_err :: "py_error + 'a \<Rightarrow> ('a \<Rightarrow> py_error + 'b) \<Rightarrow> py_error + 'b" where
  "bind_err m f = (case m of Inl e \<Rightarrow> Inl e | Inr x \<Rightarrow> f x)"

section \<open>The data frame\<close>

text \<open>
  One row of the CSV, in the order of its header: the product id (column \<open>ASIN\<close>),
  the signed discount fraction, the list price, the change of demand and the price
  elasticity. The button handler adds the column \<open>discount_pct\<close>, the discount as a
  non-negative percentage.
\<close>

record csv_row =
  ASIN :: pyid
  discount :: real
  list_price :: real
  demand_change :: real
  elasticity :: real

record frame_row = csv_row +
  discount_pct :: real

text \<open>
  \<open>Series.max()\<close> of pandas on a Series with at least one number. On the empty Series
  pandas returns NaN; \<open>classify_asin\<close> does not ask for it there (it tests
  \<open>len(...) > 0\<close> first), and the model leaves that case out.

  \<open>Series.mean()\<close> is a parameter \<open>mean\<close> of the classifier, a function from the
  numbers of the Series, in row order, to a number: pandas computes it as a floating-point
  sum, whose rounding depends on the order of the rows, divided by the count.
\<close>

fun series_max :: "real list \<Rightarrow> real" where
  "series_max (x # xs) = fold max xs x"

section \<open>The classifier\<close>

type_synonym classification = "pystr \<times> pystr \<times> pystr \<times> pystr"

text \<open>The four tuples that \<open>classify_asin\<close> returns, as written in its return statements.\<close>

definition result_A :: classification where
  "result_A = (ascii ''A'', [38334, 20516, 31361, 30772, 22411],
     ascii ''20%'' @ [12458, 12501, 25512, 22888], ascii ''#2ca02c'')"

definition result_B :: classification where
  "result_B = (ascii ''B'', [36605, 20516, 24341, 12365, 21453, 24540, 22411],
     ascii ''5-10%'' @ [12458, 12501, 25512, 22888], ascii ''#1f77b4'')"

definition result_C :: classification where
  "result_C = (ascii ''C'', [20302, 31354, 39131, 34892, 22411],
     [12475, 12540, 12523, 35211, 36865, 12426], ascii ''#d62728'')"

definition result_D :: classification where
  "result_D = (ascii ''D'', [26908, 35388, 24517, 35201],
     [12487, 12540, 12479, 19981, 36275], ascii ''#7f7f7f'')"

text \<open>
  \<open>classify_asin(asin_data, threshold_high, light_max, deep_min)\<close>, with the mean of
  pandas as its first argument. Each condition is
  written with Python's short-circuit \<open>and\<close>/\<open>or\<close>: the comparison is evaluated only
  when the test for \<open>None\<close> before it lets it through. Rule A keeps the two branches of
  the source.
\<close>

definition classify_asin ::
    "(real list \<Rightarrow> real) \<Rightarrow> frame_row list \<Rightarrow> real \<Rightarrow> real \<Rightarrow> real \<Rightarrow>
     py_error + classification" where
  "classify_asin mean asin_data threshold_high light_max deep_min =
    (let deep_data = filter (\<lambda>r. discount_pct r \<ge> deep_min) asin_data;
         deep_elasticity =
           (if length deep_data > 0 then Some (series_max (map elasticity deep_data)) else None);
         light_data =
           filter (\<lambda>r. discount_pct r \<ge> 5 \<and> discount_pct r \<le> light_max) asin_data;
         light_elasticity_max =
           (if length light_data > 0 then Some (series_max (map elasticity light_data)) else None);
         light_elasticity_avg =
           (if length light_data > 0 then Some (mean (map elasticity light_data)) else None)
     in
     bind_err (if deep_elasticity \<noteq> None then py_gt deep_elasticity threshold_high else Inr False)
       (\<lambda>c1.
         if c1 then
           bind_err (if light_elasticity_avg \<noteq> None then py_lt light_elasticity_avg 0 else Inr False)
             (\<lambda>c2. if c2 then Inr result_A else Inr result_A)
         else
           bind_err (if light_elasticity_max \<noteq> None
                     then py_gt light_elasticity_max (threshold_high / 2) else Inr False)
             (\<lambda>c3.
               if c3 then Inr result_B
               else
                 bind_err (if light_elasticity_avg \<noteq> None then py_lt light_elasticity_avg 0 else Inr False)
                   (\<lambda>c4.
                     if c4 then
                       bind_err (if deep_elasticity = None then Inr True
                                 else py_lt deep_elasticity threshold_high)
                         (\<lambda>c5. if c5 then Inr result_C else Inr result_D)
                     else Inr result_D))))"

text \<open>
  The reference algorithm of the specification, section 4.1, written from its words: the
  three aggregates as the maximum and the mean of the observations of a band (absent
  when the band holds none), then the rules A, B, C in this order, D otherwise. The mean
  is the one that the program's library computes, the parameter \<open>mean\<close>, applied to the
  elasticities of the band in row order; \<open>arith_mean\<close> is the arithmetic mean without
  rounding, which that mean approximates.
\<close>

definition arith_mean :: "real list \<Rightarrow> real" where
  "arith_mean xs = sum_list xs / real (length xs)"





text \<open>
  The reimplementation that the specification asks for: \<open>classify_asin\<close> with rule A as
  a single branch, which does not look at the light band.
\<close>

definition classify_collapsed ::
    "(real list \<Rightarrow> real) \<Rightarrow> frame_row list \<Rightarrow> real \<Rightarrow> real \<Rightarrow> real \<Rightarrow>
     py_error + classification" where
  "classify_collapsed mean asin_data threshold_high light_max deep_min =
    (let deep_data = filter (\<lambda>r. discount_pct r \<ge> deep_min) asin_data;
         deep_elasticity =
           (if length deep_data > 0 then Some (series_max (map elasticity deep_data)) else None);
         light_data =
           filter (\<lambda>r. discount_pct r \<ge> 5 \<and> discount_pct r \<le> light_max) asin_data;
         light_elasticity_max =
           (if length light_data > 0 then Some (series_max (map elasticity light_data)) else None);
         light_elasticity_avg =
           (if length light_data > 0 then Some (mean (map elasticity light_data)) else None)
     in
     bind_err (if deep_elasticity \<noteq> None then py_gt deep_elasticity threshold_high else Inr False)
       (\<lambda>c1.
         if c1 then Inr result_A
         else
           bind_err (if light_elasticity_max \<noteq> None
                     then py_gt light_elasticity_max (threshold_high / 2) else Inr False)
             (\<lambda>c3.
               if c3 then Inr result_B
               else
                 bind_err (if light_elasticity_avg \<noteq> None then py_lt light_elasticity_avg 0 else Inr False)
                   (\<lambda>c4.
                     if c4 then
                       bind_err (if deep_elasticity = None then Inr True
                                 else py_lt deep_elasticity threshold_high)
                         (\<lambda>c5. if c5 then Inr result_C else Inr result_D)
                     else Inr result_D))))"

section \<open>The chart and the report\<close>

text \<open>
  The figure of plotly, as far as \<open>generate_graph\<close> fills it: the shapes that
  \<open>add_hrect\<close> and \<open>add_hline\<close> add (in the order of the calls), the traces, the
  layout and the two axes. Each constructor and record keeps the keyword arguments of
  the call that builds it.
\<close>

datatype shape =
    HRect real real pystr real pystr real
      \<comment> \<open>y0, y1, fillcolor, opacity, layer, line_width\<close>
  | HLine real pystr pystr real "pystr option" "pystr option"
      \<comment> \<open>y, line_dash, line_color, line_width, annotation_text, annotation_position\<close>

record trace =
  tr_x :: "real list"
  tr_y :: "real list"
  tr_mode :: pystr
  tr_name :: pystr
  tr_line_color :: pystr
  tr_line_width :: real
  tr_marker_size :: real
  tr_hovertemplate :: pystr

record layout =
  title_text :: pystr
  title_font_size :: real
  xaxis_title :: pystr
  yaxis_title :: pystr
  hovermode :: pystr
  legend_yanchor :: pystr
  legend_y :: real
  legend_xanchor :: pystr
  legend_x :: real
  legend_font_size :: real
  margin_r :: real
  template :: pystr
  height :: real

record axis =
  tickvals :: "real list option"
  gridcolor :: pystr
  gridwidth :: real
  axis_range :: "real \<times> real"

record figure =
  shapes :: "shape list"
  traces :: "trace list"
  fig_layout :: "layout option"
  xaxes :: "axis option"
  yaxes :: "axis option"

definition empty_figure :: figure where
  "empty_figure = \<lparr>shapes = [], traces = [], fig_layout = None, xaxes = None, yaxes = None\<rparr>"

definition add_shape :: "figure \<Rightarrow> shape \<Rightarrow> figure" where
  "add_shape fig s = fig\<lparr>shapes := shapes fig @ [s]\<rparr>"

definition add_trace :: "figure \<Rightarrow> trace \<Rightarrow> figure" where
  "add_trace fig t = fig\<lparr>traces := traces fig @ [t]\<rparr>"

text \<open>One row of the result table; the fields are its five columns, in order.\<close>

record result_row =
  res_ASIN :: pyid
  res_name :: pyid
  res_pattern :: pystr
  res_recommendation :: pystr
  res_list_price :: real

text \<open>
  \<open>Series.unique()\<close> of pandas: the distinct values, each at the place of its first
  occurrence.
\<close>

fun unique :: "'a list \<Rightarrow> 'a list" where
  "unique [] = []"
| "unique (x # xs) = x # unique (filter (\<lambda>y. y \<noteq> x) xs)"

text \<open>\<open>Series.iloc[0]\<close>: IndexError on the empty Series.\<close>

definition iloc0 :: "'a list \<Rightarrow> py_error + 'a" where
  "iloc0 xs = (case xs of [] \<Rightarrow> Inl IndexError | x # _ \<Rightarrow> Inr x)"

text \<open>
  \<open>asin_names_dict.get(asin, asin)\<close>: the keys of the dictionary are \<open>str\<close>, and an
  \<open>int\<close> is equal to none of them.
\<close>

definition dict_get :: "(pystr \<rightharpoonup> pystr) \<Rightarrow> pyid \<Rightarrow> pyid \<Rightarrow> pyid" where
  "dict_get d k dflt =
     (case k of
        IdStr s \<Rightarrow> (case d s of Some v \<Rightarrow> IdStr v | None \<Rightarrow> dflt)
      | IdInt i \<Rightarrow> dflt)"

definition colors :: "pystr list" where
  "colors = map ascii
    [''#1f77b4'', ''#ff7f0e'', ''#2ca02c'', ''#d62728'', ''#9467bd'',
     ''#8c564b'', ''#e377c2'', ''#7f7f7f'', ''#bcbd22'', ''#17becf'']"

text \<open>
  The body of the loop of \<open>generate_graph\<close> over \<open>enumerate(asins)\<close>, on the pair of the
  figure and the list \<open>results\<close>. \<open>sort_values('discount_pct')\<close> of pandas is the
  parameter \<open>sort_values\<close>: its default algorithm is not stable, so the order in which
  it leaves rows of equal \<open>discount_pct\<close> is not fixed here. What the properties below
  ask of it is \<open>sorts_by_discount_pct\<close>: the result is a permutation of the rows, in
  ascending order of \<open>discount_pct\<close>. An exception of the classifier or of \<open>iloc[0]\<close>
  leaves the loop.
\<close>

definition sorts_by_discount_pct :: "(frame_row list \<Rightarrow> frame_row list) \<Rightarrow> bool" where
  "sorts_by_discount_pct sort_values \<longleftrightarrow>
     (\<forall>xs. mset (sort_values xs) = mset xs \<and> sorted (map discount_pct (sort_values xs)))"

definition graph_step ::
    "(real list \<Rightarrow> real) \<Rightarrow> (frame_row list \<Rightarrow> frame_row list) \<Rightarrow>
     frame_row list \<Rightarrow> (pystr \<rightharpoonup> pystr) \<Rightarrow> real \<Rightarrow> nat \<times> pyid \<Rightarrow>
     figure \<times> result_row list \<Rightarrow> py_error + figure \<times> result_row list" where
  "graph_step mean sort_values df asin_names_dict threshold_high ia st =
    (case ia of (i, asin) \<Rightarrow> case st of (fig, results) \<Rightarrow>
      let asin_data = sort_values (filter (\<lambda>r. ASIN r = asin) df) in
      if length asin_data = 0 then Inr (fig, results)
      else
        let color = colors ! (i mod length colors);
            display_name = dict_get asin_names_dict asin asin
        in
        bind_err (classify_asin mean asin_data threshold_high 12 15)
          (\<lambda>(pattern, pattern_name, recommendation, _).
            bind_err (iloc0 (map list_price asin_data))
              (\<lambda>price.
                Inr (add_trace fig
                       \<lparr>tr_x = map discount_pct asin_data,
                        tr_y = map elasticity asin_data,
                        tr_mode = ascii ''lines+markers'',
                        tr_name = py_format_id display_name @ ascii '' ('' @ pattern @ ascii '')'',
                        tr_line_color = color,
                        tr_line_width = 5 / 2,
                        tr_marker_size = 8,
                        tr_hovertemplate =
                          ascii ''<b>'' @ py_format_id display_name @ ascii ''</b><br>''
                          @ [20516, 24341, 12365, 29575] @ ascii '': %{x:.0f}%<br>''
                          @ [24382, 21147, 24615] @ ascii '': %{y:.1f}<br>''
                          @ ascii ''<extra></extra>''\<rparr>,
                     results @
                       [\<lparr>res_ASIN = asin,
                         res_name = (if display_name \<noteq> asin then display_name else IdStr []),
                         res_pattern = pattern @ ascii ''. '' @ pattern_name,
                         res_recommendation = recommendation,
                         res_list_price = price\<rparr>]))))"

fun graph_loop ::
    "(real list \<Rightarrow> real) \<Rightarrow> (frame_row list \<Rightarrow> frame_row list) \<Rightarrow>
     frame_row list \<Rightarrow> (pystr \<rightharpoonup> pystr) \<Rightarrow> real \<Rightarrow> (nat \<times> pyid) list \<Rightarrow>
     figure \<times> result_row list \<Rightarrow> py_error + figure \<times> result_row list" where
  "graph_loop mean sort_values df asin_names_dict threshold_high [] st = Inr st"
| "graph_loop mean sort_values df asin_names_dict threshold_high (ia # rest) st =
     bind_err (graph_step mean sort_values df asin_names_dict threshold_high ia st)
       (graph_loop mean sort_values df asin_names_dict threshold_high rest)"

definition final_layout :: layout where
  "final_layout =
    \<lparr>title_text = ascii ''ASIN'' @ [21029, 32, 20516, 24341, 12365, 29575] @ ascii '' vs ''
        @ [20385, 26684, 24382, 21147, 24615],
     title_font_size = 20,
     xaxis_title = [20516, 24341, 12365, 29575] @ ascii '' (%)'',
     yaxis_title = [20385, 26684, 24382, 21147, 24615],
     hovermode = ascii ''closest'',
     legend_yanchor = ascii ''top'',
     legend_y = 99 / 100,
     legend_xanchor = ascii ''left'',
     legend_x = 102 / 100,
     legend_font_size = 11,
     margin_r = 250,
     template = ascii ''plotly_white'',
     height = 600\<rparr>"

text \<open>
  \<open>generate_graph(df, asin_names_dict, threshold_high, threshold_low)\<close>, with the mean
  and the sort of pandas as its first arguments. The parameter \<open>fmt\<close> is Python's
  formatting of a float inside an f-string, which the annotation of the dashed line
  uses.
\<close>

definition generate_graph ::
    "(real list \<Rightarrow> real) \<Rightarrow> (frame_row list \<Rightarrow> frame_row list) \<Rightarrow> (real \<Rightarrow> pystr) \<Rightarrow>
     frame_row list \<Rightarrow> (pystr \<rightharpoonup> pystr) \<Rightarrow> real \<Rightarrow> real \<Rightarrow>
     py_error + figure \<times> result_row list" where
  "generate_graph mean sort_values fmt df asin_names_dict threshold_high threshold_low =
    (let fig0 = empty_figure;
         asins = unique (map ASIN df);
         fig1 = add_shape fig0 (HRect threshold_high 50 (ascii ''green'') (1 / 10) (ascii ''below'') 0);
         fig2 = add_shape fig1 (HRect (- 30) threshold_low (ascii ''red'') (1 / 10) (ascii ''below'') 0);
         fig3 = add_shape fig2
                  (HLine threshold_low (ascii ''solid'') (ascii ''gray'') (3 / 2) None None);
         fig4 = add_shape fig3
                  (HLine threshold_high (ascii ''dash'') (ascii ''green'') 2
                     (Some ([25512, 22888, 12478, 12540, 12531] @ ascii '' (''
                            @ [24382, 21147, 24615] @ ascii ''>'' @ fmt threshold_high @ ascii '')''))
                     (Some (ascii ''top right'')))
     in
     bind_err (graph_loop mean sort_values df asin_names_dict threshold_high
                 (enumerate 0 asins) (fig4, []))
       (\<lambda>(fig5, results).
         Inr (fig5\<lparr>fig_layout := Some final_layout,
                   xaxes := Some \<lparr>tickvals = Some [5, 10, 15, 20, 25], gridcolor = ascii ''lightgray'',
                                  gridwidth = 1 / 2, axis_range = (3, 25)\<rparr>,
                   yaxes := Some \<lparr>tickvals = None, gridcolor = ascii ''lightgray'',
                                  gridwidth = 1 / 2, axis_range = (- 25, 50)\<rparr>\<rparr>,
              results)))"

text \<open>
  Where a product id first occurs in a list of ids: the number of entries before it.
\<close>

definition first_pos :: "'a \<Rightarrow> 'a list \<Rightarrow> nat" where
  "first_pos x xs = length (takeWhile (\<lambda>y. y \<noteq> x) xs)"

section \<open>The name mapping\<close>

text \<open>
  \<open>str.isspace()\<close> on one code point, \<open>str.strip()\<close> without argument,
  \<open>str.split(sep)\<close> and \<open>str.split(sep, 1)\<close> for a separator of one character.
\<close>

definition py_isspace :: "nat \<Rightarrow> bool" where
  "py_isspace c \<longleftrightarrow>
     c \<in> set [9, 10, 11, 12, 13, 28, 29, 30, 31, 32, 133, 160, 5760]
     \<or> (8192 \<le> c \<and> c \<le> 8202)
     \<or> c \<in> set [8232, 8233, 8239, 8287, 12288]"

definition py_strip :: "pystr \<Rightarrow> pystr" where
  "py_strip s = rev (dropWhile py_isspace (rev (dropWhile py_isspace s)))"

fun py_split :: "nat \<Rightarrow> pystr \<Rightarrow> pystr list" where
  "py_split sep [] = [[]]"
| "py_split sep (c # cs) =
     (if c = sep then [] # py_split sep cs
      else (case py_split sep cs of [] \<Rightarrow> [[c]] | p # ps \<Rightarrow> (c # p) # ps))"

definition py_split1 :: "nat \<Rightarrow> pystr \<Rightarrow> pystr list" where
  "py_split1 sep s =
     (if sep \<in> set s
      then [takeWhile (\<lambda>c. c \<noteq> sep) s, tl (dropWhile (\<lambda>c. c \<noteq> sep) s)]
      else [s])"

text \<open>
  The body of the loop over the lines of the name-mapping text: code point 9 is the tab,
  44 the comma. A line with neither is passed over (\<open>continue\<close>).
\<close>

definition names_step :: "pystr \<Rightarrow> (pystr \<rightharpoonup> pystr) \<Rightarrow> (pystr \<rightharpoonup> pystr)" where
  "names_step line asin_names_dict =
     (case (if 9 \<in> set line then Some (py_split1 9 line)
            else if 44 \<in> set line then Some (py_split1 44 line)
            else None) of
        None \<Rightarrow> asin_names_dict
      | Some parts \<Rightarrow>
          if length parts = 2
          then asin_names_dict(py_strip (parts ! 0) \<mapsto> py_strip (parts ! 1))
          else asin_names_dict)"

definition parse_names :: "pystr \<Rightarrow> (pystr \<rightharpoonup> pystr)" where
  "parse_names asin_name_input =
     (if asin_name_input \<noteq> [] \<and> py_strip asin_name_input \<noteq> []
      then fold names_step (py_split 10 (py_strip asin_name_input)) Map.empty
      else Map.empty)"

text \<open>
  The rule for one line as the specification words it: the line is cut at its first
  separator, where a separator is a tab or a comma, whichever comes first.
\<close>

definition spec_is_sep :: "nat \<Rightarrow> bool" where
  "spec_is_sep c \<longleftrightarrow> c = 9 \<or> c = 44"

definition spec_names_step :: "pystr \<Rightarrow> (pystr \<rightharpoonup> pystr) \<Rightarrow> (pystr \<rightharpoonup> pystr)" where
  "spec_names_step line asin_names_dict =
     (if list_ex spec_is_sep line
      then asin_names_dict
             (py_strip (takeWhile (\<lambda>c. \<not> spec_is_sep c) line) \<mapsto>
              py_strip (tl (dropWhile (\<lambda>c. \<not> spec_is_sep c) line)))
      else asin_names_dict)"

section \<open>The button handler\<close>

text \<open>
  The four numbers of the sidebar, and the three entries of the session state that the
  handler writes.
\<close>

record config =
  cfg_threshold_high :: real
  cfg_threshold_low :: real
  cfg_light_discount_max :: int
  cfg_deep_discount_min :: int

record session =
  session_fig :: "figure option"
  session_df_result :: "result_row list option"
  session_graph_generated :: bool

text \<open>
  \<open>df['discount'].abs() * 100\<close>, row by row: the absolute value is exact, the product
  with 100 is the floating-point product \<open>times100\<close>.
\<close>

definition add_discount_pct :: "(real \<Rightarrow> real) \<Rightarrow> csv_row \<Rightarrow> frame_row" where
  "add_discount_pct times100 r =
     \<lparr>ASIN = ASIN r, discount = discount r, list_price = list_price r,
      demand_change = demand_change r, elasticity = elasticity r,
      discount_pct = times100 \<bar>discount r\<bar>\<rparr>"

text \<open>
  The handler of the button: it adds the percentage column, parses the name mapping and
  calls \<open>generate_graph\<close>. An exception is caught and shown, and the session state stays
  as it was.
\<close>

definition on_generate ::
    "(real list \<Rightarrow> real) \<Rightarrow> (frame_row list \<Rightarrow> frame_row list) \<Rightarrow> (real \<Rightarrow> real) \<Rightarrow>
     (real \<Rightarrow> pystr) \<Rightarrow> config \<Rightarrow> csv_row list \<Rightarrow> pystr \<Rightarrow> session \<Rightarrow> session" where
  "on_generate mean sort_values times100 fmt cfg raw asin_name_input st =
     (let df = map (add_discount_pct times100) raw;
          asin_names_dict = parse_names asin_name_input
      in case generate_graph mean sort_values fmt df asin_names_dict
                (cfg_threshold_high cfg) (cfg_threshold_low cfg) of
           Inl e \<Rightarrow> st
         | Inr (fig, df_result) \<Rightarrow>
             st\<lparr>session_fig := Some fig, session_df_result := Some df_result,
                session_graph_generated := True\<rparr>)"

section \<open>The report as the specification describes it\<close>

text \<open>
  Section 4.2 of the specification, written from its words. The display name of a row
  is empty when the mapping has no entry for the product id (it has none for an id that
  is an \<open>int\<close>) or maps the id to itself.
  The row of a product holds its id, that display name, the letter and the label of the
  classifier's result joined as \<open><letter>. <label>\<close>, the recommendation, and the list
  price of the first of its observations once they are sorted by \<open>discount_pct\<close>; a
  product needs at least one observation to have a row. The trace of a product in the
  chart plots these sorted observations and is named after the product and the letter.
\<close>

definition spec_display_name :: "(pystr \<rightharpoonup> pystr) \<Rightarrow> pyid \<Rightarrow> pyid" where
  "spec_display_name names pid =
     (case pid of
        IdInt i \<Rightarrow> IdStr []
      | IdStr s \<Rightarrow> (case names s of None \<Rightarrow> IdStr [] | Some n \<Rightarrow> if n = s then IdStr [] else IdStr n))"

definition spec_row_for ::
    "(real list \<Rightarrow> real) \<Rightarrow> (frame_row list \<Rightarrow> frame_row list) \<Rightarrow>
     frame_row list \<Rightarrow> (pystr \<rightharpoonup> pystr) \<Rightarrow> real \<Rightarrow> pyid \<Rightarrow> result_row \<Rightarrow> bool" where
  "spec_row_for mean sort_values df names th pid row \<longleftrightarrow>
     (let obs = sort_values (filter (\<lambda>r. ASIN r = pid) df) in
      obs \<noteq> [] \<and>
      (case classify_asin mean obs th 12 15 of
         Inl e \<Rightarrow> False
       | Inr (letter, label, recommendation, color) \<Rightarrow>
           row = \<lparr>res_ASIN = pid,
                  res_name = spec_display_name names pid,
                  res_pattern = letter @ ascii ''. '' @ label,
                  res_recommendation = recommendation,
                  res_list_price = list_price (hd obs)\<rparr>))"

definition spec_trace_for ::
    "(real list \<Rightarrow> real) \<Rightarrow> (frame_row list \<Rightarrow> frame_row list) \<Rightarrow>
     frame_row list \<Rightarrow> (pystr \<rightharpoonup> pystr) \<Rightarrow> real \<Rightarrow> pyid \<Rightarrow> trace \<Rightarrow> bool" where
  "spec_trace_for mean sort_values df names th pid tr \<longleftrightarrow>
     (let obs = sort_values (filter (\<lambda>r. ASIN r = pid) df) in
      tr_x tr = map discount_pct obs \<and> tr_y tr = map elasticity obs \<and>
      (case classify_asin mean obs th 12 15 of
         Inl e \<Rightarrow> False
       | Inr (letter, label, recommendation, color) \<Rightarrow>
           tr_name tr = py_format_id (dict_get names pid pid)
                          @ ascii '' ('' @ letter @ ascii '')''))"

section \<open>The sample data\<close>

text \<open>
  The rows of \<open>sample_data\<close>, the text that the input area of \<open>app.py\<close> shows first,
  its cells read as the decimal numbers they spell, and the data frame that the handler
  makes of them when the product with 100 is exact.
\<close>

definition sample_data :: "csv_row list" where
  "sample_data =
    [\<lparr>ASIN = IdStr (ascii ''B0SAMPLE01''), discount = - 9 / 100, list_price = 1500,
       demand_change = - 884 / 1000, elasticity = - 9825 / 1000\<rparr>,
     \<lparr>ASIN = IdStr (ascii ''B0SAMPLE01''), discount = - 6 / 100, list_price = 1500,
       demand_change = - 837 / 1000, elasticity = - 13954 / 1000\<rparr>,
     \<lparr>ASIN = IdStr (ascii ''B0SAMPLE01''), discount = - 5 / 100, list_price = 1500,
       demand_change = - 9 / 10, elasticity = - 17992 / 1000\<rparr>,
     \<lparr>ASIN = IdStr (ascii ''B0SAMPLE01''), discount = - 2 / 10, list_price = 1500,
       demand_change = 3552 / 1000, elasticity = 17758 / 1000\<rparr>,
     \<lparr>ASIN = IdStr (ascii ''B0SAMPLE02''), discount = - 2 / 10, list_price = 3000,
       demand_change = 8105 / 1000, elasticity = 40525 / 1000\<rparr>,
     \<lparr>ASIN = IdStr (ascii ''B0SAMPLE03''), discount = - 6 / 100, list_price = 1800,
       demand_change = 1008 / 1000, elasticity = 16804 / 1000\<rparr>,
     \<lparr>ASIN = IdStr (ascii ''B0SAMPLE03''), discount = - 7 / 100, list_price = 1800,
       demand_change = 774 / 1000, elasticity = 11051 / 1000\<rparr>,
     \<lparr>ASIN = IdStr (ascii ''B0SAMPLE04''), discount = - 12 / 100, list_price = 1539,
       demand_change = - 694 / 1000, elasticity = - 5784 / 1000\<rparr>,
     \<lparr>ASIN = IdStr (ascii ''B0SAMPLE04''), discount = - 5 / 100, list_price = 1545,
       demand_change = - 773 / 1000, elasticity = - 15459 / 1000\<rparr>]"

definition sample_df :: "frame_row list" where
  "sample_df = map (add_discount_pct (\<lambda>x. x * 100)) sample_data"

section \<open>A floating-point mean\<close>

text \<open>
  The mean of a short \<open>float64\<close> Series as pandas computes it: the sum is accumulated
  from 0 in row order (numpy adds fewer than eight numbers one after the other), each
  addition and the final division by the count rounded to the nearest \<open>float64\<close>, ties to
  the even mantissa. \<open>fl64\<close> is that rounding, for results in the finite range: 53 bits
  of mantissa, and the spacing 2 to the power -1074 of the subnormal numbers at the bottom.
  \<open>obs_at_6\<close> is an observation at a discount of 6 percent with a given elasticity.
\<close>

definition round_half_even :: "real \<Rightarrow> int" where
  "round_half_even y =
     (let f = \<lfloor>y\<rfloor>; d = y - of_int f
      in if d < 1 / 2 then f else if d > 1 / 2 then f + 1 else if even f then f else f + 1)"

definition fl64 :: "real \<Rightarrow> real" where
  "fl64 x =
     (if x = 0 then 0
      else let e = max (\<lfloor>log 2 \<bar>x\<bar>\<rfloor> - 52) (- 1074)
           in of_int (round_half_even (x / 2 powi e)) * 2 powi e)"

definition fl64_mean :: "real list \<Rightarrow> real" where
  "fl64_mean xs = fl64 (foldl (\<lambda>s x. fl64 (s + x)) 0 xs / real (length xs))"

definition obs_at_6 :: "real \<Rightarrow> frame_row" where
  "obs_at_6 e =
     \<lparr>ASIN = IdStr (ascii ''B0SAMPLE07''), discount = - 6 / 100, list_price = 1000,
      demand_change = 0, elasticity = e, discount_pct = 6\<rparr>"

section \<open>Facts about the classifier\<close>

lemma series_max_Max: "series_max xs = Max (set xs)" if "xs \<noteq> []"
proof (cases xs)
  case Nil
  then show ?thesis using that by simp
next
  case (Cons a list)
  have "fold max list a = Max (set (a # list))" by (rule Max.set_eq_fold [symmetric])
  then show ?thesis using Cons by simp
qed

lemma series_max_mset:
  assumes "mset xs = mset ys" "xs \<noteq> []"
  shows "series_max xs = series_max ys"
proof -
  from assms have "ys \<noteq> []" by auto
  moreover from assms(1) have "set xs = set ys" by (rule mset_eq_setD)
  ultimately show ?thesis using assms(2) by (simp add: series_max_Max)
qed

lemma bind_err_Inr: "bind_err (Inr x) f = f x"
  by (simp add: bind_err_def)

lemma classify_asin_closed:
  "classify_asin mean asin_data th lm dm =
    Inr (let deep = map elasticity (filter (\<lambda>r. discount_pct r \<ge> dm) asin_data);
             light = map elasticity (filter (\<lambda>r. discount_pct r \<ge> 5 \<and> discount_pct r \<le> lm) asin_data)
         in if deep \<noteq> [] \<and> series_max deep > th then result_A
            else if light \<noteq> [] \<and> series_max light > th / 2 then result_B
            else if light \<noteq> [] \<and> mean light < 0 \<and> (deep = [] \<or> series_max deep < th)
              then result_C
            else result_D)"
proof (cases "filter (\<lambda>r. discount_pct r \<ge> dm) asin_data = []")
  case deep_empty: True
  show ?thesis
  proof (cases "filter (\<lambda>r. discount_pct r \<ge> 5 \<and> discount_pct r \<le> lm) asin_data = []")
    case True
    with deep_empty show ?thesis
      by (simp add: classify_asin_def Let_def bind_err_Inr)
  next
    case False
    with deep_empty show ?thesis
      by (simp add: classify_asin_def Let_def bind_err_Inr py_gt_def py_lt_def)
  qed
next
  case deep_some: False
  show ?thesis
  proof (cases "filter (\<lambda>r. discount_pct r \<ge> 5 \<and> discount_pct r \<le> lm) asin_data = []")
    case True
    with deep_some show ?thesis
      by (simp add: classify_asin_def Let_def bind_err_Inr py_gt_def py_lt_def)
  next
    case False
    with deep_some show ?thesis
      by (simp add: classify_asin_def Let_def bind_err_Inr py_gt_def py_lt_def)
  qed
qed

lemma classify_collapsed_closed:
  "classify_collapsed mean asin_data th lm dm =
    Inr (let deep = map elasticity (filter (\<lambda>r. discount_pct r \<ge> dm) asin_data);
             light = map elasticity (filter (\<lambda>r. discount_pct r \<ge> 5 \<and> discount_pct r \<le> lm) asin_data)
         in if deep \<noteq> [] \<and> series_max deep > th then result_A
            else if light \<noteq> [] \<and> series_max light > th / 2 then result_B
            else if light \<noteq> [] \<and> mean light < 0 \<and> (deep = [] \<or> series_max deep < th)
              then result_C
            else result_D)"
proof (cases "filter (\<lambda>r. discount_pct r \<ge> dm) asin_data = []")
  case deep_empty: True
  show ?thesis
  proof (cases "filter (\<lambda>r. discount_pct r \<ge> 5 \<and> discount_pct r \<le> lm) asin_data = []")
    case True
    with deep_empty show ?thesis
      by (simp add: classify_collapsed_def Let_def bind_err_Inr)
  next
    case False
    with deep_empty show ?thesis
      by (simp add: classify_collapsed_def Let_def bind_err_Inr py_gt_def py_lt_def)
  qed
next
  case deep_some: False
  show ?thesis
  proof (cases "filter (\<lambda>r. discount_pct r \<ge> 5 \<and> discount_pct r \<le> lm) asin_data = []")
    case True
    with deep_some show ?thesis
      by (simp add: classify_collapsed_def Let_def bind_err_Inr py_gt_def py_lt_def)
  next
    case False
    with deep_some show ?thesis
      by (simp add: classify_collapsed_def Let_def bind_err_Inr py_gt_def py_lt_def)
  qed
qed

lemma results_distinct: "distinct [result_A, result_B, result_C, result_D]"
  by (simp add: result_A_def result_B_def result_C_def result_D_def ascii_def)

lemma classify_asin_is_A:
  "classify_asin mean xs th lm dm = Inr result_A \<longleftrightarrow>
     map elasticity (filter (\<lambda>r. discount_pct r \<ge> dm) xs) \<noteq> [] \<and>
     series_max (map elasticity (filter (\<lambda>r. discount_pct r \<ge> dm) xs)) > th"
  unfolding classify_asin_closed Let_def using results_distinct by auto

lemma classify_asin_is_B:
  "classify_asin mean xs th lm dm = Inr result_B \<longleftrightarrow>
     \<not> (map elasticity (filter (\<lambda>r. discount_pct r \<ge> dm) xs) \<noteq> [] \<and>
        series_max (map elasticity (filter (\<lambda>r. discount_pct r \<ge> dm) xs)) > th) \<and>
     map elasticity (filter (\<lambda>r. discount_pct r \<ge> 5 \<and> discount_pct r \<le> lm) xs) \<noteq> [] \<and>
     series_max (map elasticity (filter (\<lambda>r. discount_pct r \<ge> 5 \<and> discount_pct r \<le> lm) xs)) > th / 2"
  unfolding classify_asin_closed Let_def using results_distinct by auto

lemma band_aggregates_mset:
  assumes "mset dx = mset dy" "mset lx = mset ly"
  shows "(dx \<noteq> [] \<and> series_max dx > th) = (dy \<noteq> [] \<and> series_max dy > th)"
    and "(lx \<noteq> [] \<and> series_max lx > th / 2) = (ly \<noteq> [] \<and> series_max ly > th / 2)"
    and "(dx = [] \<or> series_max dx < th) = (dy = [] \<or> series_max dy < th)"
    and "lx = [] \<longleftrightarrow> ly = []"
proof -
  have d0: "dx = [] \<longleftrightarrow> dy = []"
    using assms(1) by (metis mset_zero_iff)
  show l0: "lx = [] \<longleftrightarrow> ly = []"
    using assms(2) by (metis mset_zero_iff)
  show "(dx \<noteq> [] \<and> series_max dx > th) = (dy \<noteq> [] \<and> series_max dy > th)"
    using d0 series_max_mset [OF assms(1)] by metis
  show "(lx \<noteq> [] \<and> series_max lx > th / 2) = (ly \<noteq> [] \<and> series_max ly > th / 2)"
    using l0 series_max_mset [OF assms(2)] by metis
  show "(dx = [] \<or> series_max dx < th) = (dy = [] \<or> series_max dy < th)"
    using d0 series_max_mset [OF assms(1)] by metis
qed

lemma classify_asin_cong:
  assumes "mset (map elasticity (filter (\<lambda>r. discount_pct r \<ge> dm) xs)) =
           mset (map elasticity (filter (\<lambda>r. discount_pct r \<ge> dm) ys))"
    and "mset (map elasticity (filter (\<lambda>r. discount_pct r \<ge> 5 \<and> discount_pct r \<le> lm) xs)) =
         mset (map elasticity (filter (\<lambda>r. discount_pct r \<ge> 5 \<and> discount_pct r \<le> lm) ys))"
    and "mean (map elasticity (filter (\<lambda>r. discount_pct r \<ge> 5 \<and> discount_pct r \<le> lm) xs)) =
         mean (map elasticity (filter (\<lambda>r. discount_pct r \<ge> 5 \<and> discount_pct r \<le> lm) ys))"
  shows "classify_asin mean xs th lm dm = classify_asin mean ys th lm dm"
proof -
  define dx where "dx = map elasticity (filter (\<lambda>r. discount_pct r \<ge> dm) xs)"
  define dy where "dy = map elasticity (filter (\<lambda>r. discount_pct r \<ge> dm) ys)"
  define lx where "lx = map elasticity (filter (\<lambda>r. discount_pct r \<ge> 5 \<and> discount_pct r \<le> lm) xs)"
  define ly where "ly = map elasticity (filter (\<lambda>r. discount_pct r \<ge> 5 \<and> discount_pct r \<le> lm) ys)"
  have md: "mset dx = mset dy" and ml: "mset lx = mset ly" and mm: "mean lx = mean ly"
    using assms by (simp_all only: dx_def dy_def lx_def ly_def)
  note agg = band_aggregates_mset [OF md ml]
  have c3: "(lx \<noteq> [] \<and> mean lx < 0 \<and> (dx = [] \<or> series_max dx < th))
      = (ly \<noteq> [] \<and> mean ly < 0 \<and> (dy = [] \<or> series_max dy < th))"
    using agg(3) [of th] agg(4) mm by simp
  have "classify_asin mean xs th lm dm =
      Inr (if dx \<noteq> [] \<and> series_max dx > th then result_A
           else if lx \<noteq> [] \<and> series_max lx > th / 2 then result_B
           else if lx \<noteq> [] \<and> mean lx < 0 \<and> (dx = [] \<or> series_max dx < th) then result_C
           else result_D)"
    unfolding classify_asin_closed Let_def dx_def lx_def ..
  also have "\<dots> =
      Inr (if dy \<noteq> [] \<and> series_max dy > th then result_A
           else if ly \<noteq> [] \<and> series_max ly > th / 2 then result_B
           else if ly \<noteq> [] \<and> mean ly < 0 \<and> (dy = [] \<or> series_max dy < th) then result_C
           else result_D)"
    by (simp only: agg(1,2) c3)
  also have "\<dots> = classify_asin mean ys th lm dm"
    unfolding classify_asin_closed Let_def dy_def ly_def ..
  finally show ?thesis .
qed

lemma band_map_cong:
  "map (\<lambda>r. (discount_pct r, elasticity r)) xs = map (\<lambda>r. (discount_pct r, elasticity r)) ys \<Longrightarrow>
   map elasticity (filter (\<lambda>r. P (discount_pct r)) xs) =
   map elasticity (filter (\<lambda>r. P (discount_pct r)) ys)"
proof (induction xs arbitrary: ys)
  case Nil
  then show ?case by simp
next
  case (Cons x xs)
  then obtain y ys' where ys: "ys = y # ys'" by (cases ys) auto
  with Cons.prems have "discount_pct x = discount_pct y" "elasticity x = elasticity y"
    and "map (\<lambda>r. (discount_pct r, elasticity r)) xs = map (\<lambda>r. (discount_pct r, elasticity r)) ys'"
    by simp_all
  with Cons.IH [of ys'] ys show ?case by simp
qed

lemma band_mset_cong:
  assumes "mset xs = mset ys"
  shows "mset (map elasticity (filter P xs)) = mset (map elasticity (filter P ys))"
proof -
  have "mset (map elasticity (filter P xs)) = image_mset elasticity (filter_mset P (mset xs))"
    by simp
  also have "\<dots> = image_mset elasticity (filter_mset P (mset ys))"
    by (simp only: assms)
  also have "\<dots> = mset (map elasticity (filter P ys))"
    by simp
  finally show ?thesis .
qed


section \<open>Facts about the floating-point mean\<close>

lemma fl64_binade:
  assumes "2 powi k \<le> \<bar>x\<bar>" "\<bar>x\<bar> < 2 powi (k + 1)"
  shows "fl64 x = of_int (round_half_even (x / 2 powi (max (k - 52) (- 1074))))
                    * 2 powi (max (k - 52) (- 1074))"
proof -
  have pos: "0 < \<bar>x\<bar>"
    using assms(1) by (smt (verit) zero_less_power_int)
  then have nz: "x \<noteq> 0" by auto
  have "(2::real) powr (real_of_int k) = 2 powi k"
    by (rule powr_real_of_int') simp_all
  moreover have "(2::real) powr (real_of_int (k + 1)) = 2 powi (k + 1)"
    by (rule powr_real_of_int') simp_all
  ultimately have "2 powr (real_of_int k) \<le> \<bar>x\<bar>" "\<bar>x\<bar> < 2 powr (real_of_int (k + 1))"
    using assms by simp_all
  then have "\<lfloor>log 2 \<bar>x\<bar>\<rfloor> = k"
    using pos floor_log_eq_powr_iff [of "\<bar>x\<bar>" 2 k] by simp
  then show ?thesis
    using nz by (simp add: fl64_def Let_def)
qed

lemma fl64_03: "fl64 (5404319552844595 / 2 ^ 54) = 5404319552844595 / 2 ^ 54"
  using fl64_binade [of "- 2" "5404319552844595 / 2 ^ 54"]
  by (simp add: round_half_even_def Let_def power_int_minus)

lemma fl64_03_m04: "fl64 (5404319552844595 / 2 ^ 54 + - 3602879701896397 / 2 ^ 53)
    = - 1801439850948199 / 2 ^ 54"
  using fl64_binade [of "- 4" "5404319552844595 / 2 ^ 54 + - 3602879701896397 / 2 ^ 53"]
  by (simp add: round_half_even_def Let_def power_int_minus)

lemma fl64_03_m04_01: "fl64 (- 1801439850948199 / 2 ^ 54 + 3602879701896397 / 2 ^ 55) = - 1 / 2 ^ 55"
  using fl64_binade [of "- 55" "- 1801439850948199 / 2 ^ 54 + 3602879701896397 / 2 ^ 55"]
  by (simp add: round_half_even_def Let_def power_int_minus)

lemma fl64_third: "fl64 (- 1 / 2 ^ 55 / 3) = - 6004799503160661 / 2 ^ 109"
  using fl64_binade [of "- 57" "- 1 / 2 ^ 55 / 3"]
  by (simp add: round_half_even_def Let_def power_int_minus)

lemma fl64_03_01: "fl64 (5404319552844595 / 2 ^ 54 + 3602879701896397 / 2 ^ 55)
    = 3602879701896397 / 2 ^ 53"
  using fl64_binade [of "- 2" "5404319552844595 / 2 ^ 54 + 3602879701896397 / 2 ^ 55"]
  by (simp add: round_half_even_def Let_def power_int_minus)

lemma fl64_0: "fl64 0 = 0"
  by (simp add: fl64_def)

lemma fl64_mean_03_m04_01:
  "fl64_mean [5404319552844595 / 2 ^ 54, - 3602879701896397 / 2 ^ 53, 3602879701896397 / 2 ^ 55]
   = - 6004799503160661 / 2 ^ 109"
proof -
  have "foldl (\<lambda>s x. fl64 (s + x)) 0
          [5404319552844595 / 2 ^ 54, - 3602879701896397 / 2 ^ 53, 3602879701896397 / 2 ^ 55]
      = fl64 (fl64 (fl64 (5404319552844595 / 2 ^ 54) + - 3602879701896397 / 2 ^ 53)
              + 3602879701896397 / 2 ^ 55)"
    by simp
  also have "\<dots> = - 1 / 2 ^ 55"
    by (simp only: fl64_03 fl64_03_m04 fl64_03_m04_01)
  finally show ?thesis
    using fl64_third by (simp add: fl64_mean_def)
qed

lemma fl64_mean_03_01_m04:
  "fl64_mean [5404319552844595 / 2 ^ 54, 3602879701896397 / 2 ^ 55, - 3602879701896397 / 2 ^ 53]
   = 0"
proof -
  have "foldl (\<lambda>s x. fl64 (s + x)) 0
          [5404319552844595 / 2 ^ 54, 3602879701896397 / 2 ^ 55, - 3602879701896397 / 2 ^ 53]
      = fl64 (fl64 (fl64 (5404319552844595 / 2 ^ 54) + 3602879701896397 / 2 ^ 55)
              + - 3602879701896397 / 2 ^ 53)"
    by simp
  also have "\<dots> = fl64 (3602879701896397 / 2 ^ 53 + - 3602879701896397 / 2 ^ 53)"
    by (simp only: fl64_03 fl64_03_01)
  also have "\<dots> = 0"
    by (simp add: fl64_0)
  finally show ?thesis
    by (simp add: fl64_mean_def fl64_0)
qed

section \<open>The classifier and the reference algorithm\<close>



text \<open>
  Claim C2. For every threshold, every pair of band boundaries and every series,
  \<open>classify_asin\<close> returns one of the four complete tuples and never an exception; the
  four tuples carry the letters A, B, C, D and the colours green \<open>#2ca02c\<close>, blue
  \<open>#1f77b4\<close>, red \<open>#d62728\<close> and gray \<open>#7f7f7f\<close>, so the letter fixes the rest.
\<close>

theorem classify_asin_one_of_four:
  "(\<exists>c \<in> {result_A, result_B, result_C, result_D}.
      classify_asin mean obs threshold_high light_max deep_min = Inr c)
   \<and> map fst [result_A, result_B, result_C, result_D] = map ascii [''A'', ''B'', ''C'', ''D'']
   \<and> map (\<lambda>c. snd (snd (snd c))) [result_A, result_B, result_C, result_D]
       = map ascii [''#2ca02c'', ''#1f77b4'', ''#d62728'', ''#7f7f7f'']"
proof -
  have "\<exists>c \<in> {result_A, result_B, result_C, result_D}.
      classify_asin mean obs threshold_high light_max deep_min = Inr c"
    unfolding classify_asin_closed Let_def by simp
  moreover have "map fst [result_A, result_B, result_C, result_D] = map ascii [''A'', ''B'', ''C'', ''D'']"
    by (simp add: result_A_def result_B_def result_C_def result_D_def)
  moreover have "map (\<lambda>c. snd (snd (snd c))) [result_A, result_B, result_C, result_D]
       = map ascii [''#2ca02c'', ''#1f77b4'', ''#d62728'', ''#7f7f7f'']"
    by (simp add: result_A_def result_B_def result_C_def result_D_def)
  ultimately show ?thesis by blast
qed

text \<open>The product B0SAMPLE02 of the sample data, a single observation at 20 percent.\<close>

theorem classify_asin_one_of_four_witness:
  "(\<exists>c \<in> {result_A, result_B, result_C, result_D}.
      classify_asin arith_mean
        (filter (\<lambda>r. ASIN r = IdStr (ascii ''B0SAMPLE02'')) sample_df) 10 12 15 = Inr c)
   \<and> classify_asin arith_mean
        (filter (\<lambda>r. ASIN r = IdStr (ascii ''B0SAMPLE02'')) sample_df) 10 12 15 = Inr result_A"
proof -
  have "classify_asin arith_mean
          (filter (\<lambda>r. ASIN r = IdStr (ascii ''B0SAMPLE02'')) sample_df) 10 12 15 = Inr result_A"
    unfolding classify_asin_closed
    by (simp add: sample_df_def sample_data_def add_discount_pct_def ascii_def)
  with classify_asin_one_of_four
    [of arith_mean "filter (\<lambda>r. ASIN r = IdStr (ascii ''B0SAMPLE02'')) sample_df" 10 12 15]
  show ?thesis by simp
qed

text \<open>
  Claim C4. When no observation of the series lies in the light band, from 5 to
  \<open>light_max\<close>, and none lies in the deep band, from \<open>deep_min\<close> up, the three aggregates
  are \<open>None\<close>, no comparison is evaluated on them, and \<open>classify_asin\<close> returns the
  tuple of category D and no exception.
\<close>

theorem classify_asin_no_band_is_D:
  assumes "\<forall>r \<in> set obs. \<not> (5 \<le> discount_pct r \<and> discount_pct r \<le> light_max)
                         \<and> \<not> deep_min \<le> discount_pct r"
  shows "classify_asin mean obs threshold_high light_max deep_min = Inr result_D"
proof -
  from assms have "filter (\<lambda>r. discount_pct r \<ge> deep_min) obs = []"
    by (simp add: filter_empty_conv)
  moreover from assms have
    "filter (\<lambda>r. discount_pct r \<ge> 5 \<and> discount_pct r \<le> light_max) obs = []"
    by (simp add: filter_empty_conv)
  ultimately show ?thesis
    unfolding classify_asin_closed Let_def by simp
qed

text \<open>One observation at 3 percent, below both bands.\<close>

theorem classify_asin_no_band_is_D_witness:
  "classify_asin arith_mean
     [add_discount_pct (\<lambda>x. x * 100)
        \<lparr>ASIN = IdStr (ascii ''B0SAMPLE05''), discount = - 3 / 100, list_price = 1200,
         demand_change = 1 / 10, elasticity = 3\<rparr>] 10 12 15 = Inr result_D
   \<and> fst result_D = ascii ''D''"
  using classify_asin_no_band_is_D
    [of "[add_discount_pct (\<lambda>x. x * 100)
        \<lparr>ASIN = IdStr (ascii ''B0SAMPLE05''), discount = - 3 / 100, list_price = 1200,
         demand_change = 1 / 10, elasticity = 3\<rparr>]" 12 15 arith_mean 10]
  by (simp add: add_discount_pct_def result_D_def)

text \<open>
  Claim C5. When the deep band is not empty and its maximum is above \<open>threshold_high\<close>,
  \<open>classify_asin\<close> returns category A whatever the light band holds, so also when rule
  B would match; and \<open>classify_asin\<close>, with its two branches under rule A, is equal on
  every input to \<open>classify_collapsed\<close>, which has one.
\<close>

theorem classify_asin_rule_A_single_branch:
  "(let deep = map elasticity (filter (\<lambda>r. discount_pct r \<ge> deep_min) obs)
    in deep \<noteq> [] \<and> series_max deep > threshold_high
       \<longrightarrow> classify_asin mean obs threshold_high light_max deep_min = Inr result_A)
   \<and> classify_asin mean obs threshold_high light_max deep_min
       = classify_collapsed mean obs threshold_high light_max deep_min"
proof -
  have "classify_asin mean obs threshold_high light_max deep_min
       = classify_collapsed mean obs threshold_high light_max deep_min"
    by (simp only: classify_asin_closed classify_collapsed_closed)
  moreover have "let deep = map elasticity (filter (\<lambda>r. discount_pct r \<ge> deep_min) obs)
    in deep \<noteq> [] \<and> series_max deep > threshold_high
       \<longrightarrow> classify_asin mean obs threshold_high light_max deep_min = Inr result_A"
    unfolding classify_asin_closed Let_def by simp
  ultimately show ?thesis by simp
qed

text \<open>
  The products B0SAMPLE02 and B0SAMPLE03 of the sample data read as one series: the
  deep maximum is above 10, the light maximum above 5, and the result is A.
\<close>

theorem classify_asin_rule_A_single_branch_witness:
  "series_max (map elasticity (filter (\<lambda>r. discount_pct r \<ge> 15)
       (filter (\<lambda>r. ASIN r \<in> set [IdStr (ascii ''B0SAMPLE02''), IdStr (ascii ''B0SAMPLE03'')])
          sample_df))) > 10
   \<and> series_max (map elasticity (filter (\<lambda>r. discount_pct r \<ge> 5 \<and> discount_pct r \<le> 12)
       (filter (\<lambda>r. ASIN r \<in> set [IdStr (ascii ''B0SAMPLE02''), IdStr (ascii ''B0SAMPLE03'')])
          sample_df))) > 10 / 2
   \<and> classify_asin arith_mean
        (filter (\<lambda>r. ASIN r \<in> set [IdStr (ascii ''B0SAMPLE02''), IdStr (ascii ''B0SAMPLE03'')])
           sample_df) 10 12 15
       = Inr result_A
   \<and> classify_collapsed arith_mean
        (filter (\<lambda>r. ASIN r \<in> set [IdStr (ascii ''B0SAMPLE02''), IdStr (ascii ''B0SAMPLE03'')])
           sample_df) 10 12 15
       = Inr result_A"
  using classify_asin_rule_A_single_branch
    [of 15 "filter (\<lambda>r. ASIN r \<in> set [IdStr (ascii ''B0SAMPLE02''), IdStr (ascii ''B0SAMPLE03'')])
              sample_df" 10 arith_mean 12]
  by (auto simp add: Let_def sample_df_def sample_data_def add_discount_pct_def ascii_def)

text \<open>
  Claim C8. Two series whose rows agree, place by place, on the pair of
  \<open>discount_pct\<close> and \<open>elasticity\<close> get the same result from \<open>classify_asin\<close>, whatever
  their list prices and demand changes (and product ids) are.
\<close>

theorem classify_asin_ignores_price_and_demand:
  assumes "map (\<lambda>r. (discount_pct r, elasticity r)) xs = map (\<lambda>r. (discount_pct r, elasticity r)) ys"
  shows "classify_asin mean xs threshold_high light_max deep_min
       = classify_asin mean ys threshold_high light_max deep_min"
proof -
  have "map elasticity (filter (\<lambda>r. discount_pct r \<ge> deep_min) xs)
      = map elasticity (filter (\<lambda>r. discount_pct r \<ge> deep_min) ys)"
    using assms by (rule band_map_cong [where P = "\<lambda>d. d \<ge> deep_min"])
  moreover have
    "map elasticity (filter (\<lambda>r. discount_pct r \<ge> 5 \<and> discount_pct r \<le> light_max) xs)
   = map elasticity (filter (\<lambda>r. discount_pct r \<ge> 5 \<and> discount_pct r \<le> light_max) ys)"
    using assms by (rule band_map_cong [where P = "\<lambda>d. d \<ge> 5 \<and> d \<le> light_max"])
  ultimately show ?thesis
    by (intro classify_asin_cong) simp_all
qed

text \<open>
  The product B0SAMPLE04 of the sample data, and the same rows with other list prices
  and demand changes.
\<close>

theorem classify_asin_ignores_price_and_demand_witness:
  "classify_asin arith_mean
     (map (\<lambda>r. r\<lparr>list_price := 2 * list_price r, demand_change := 0\<rparr>)
        (filter (\<lambda>r. ASIN r = IdStr (ascii ''B0SAMPLE04'')) sample_df)) 10 12 15
   = classify_asin arith_mean (filter (\<lambda>r. ASIN r = IdStr (ascii ''B0SAMPLE04'')) sample_df) 10 12 15
   \<and> map list_price (map (\<lambda>r. r\<lparr>list_price := 2 * list_price r, demand_change := 0\<rparr>)
        (filter (\<lambda>r. ASIN r = IdStr (ascii ''B0SAMPLE04'')) sample_df))
     \<noteq> map list_price (filter (\<lambda>r. ASIN r = IdStr (ascii ''B0SAMPLE04'')) sample_df)"
proof -
  have "map list_price (map (\<lambda>r. r\<lparr>list_price := 2 * list_price r, demand_change := 0\<rparr>)
        (filter (\<lambda>r. ASIN r = IdStr (ascii ''B0SAMPLE04'')) sample_df))
     \<noteq> map list_price (filter (\<lambda>r. ASIN r = IdStr (ascii ''B0SAMPLE04'')) sample_df)"
    by (simp add: sample_df_def sample_data_def add_discount_pct_def ascii_def)
  moreover have "map (\<lambda>r. (discount_pct r, elasticity r))
        (map (\<lambda>r. r\<lparr>list_price := 2 * list_price r, demand_change := 0\<rparr>)
          (filter (\<lambda>r. ASIN r = IdStr (ascii ''B0SAMPLE04'')) sample_df))
      = map (\<lambda>r. (discount_pct r, elasticity r))
          (filter (\<lambda>r. ASIN r = IdStr (ascii ''B0SAMPLE04'')) sample_df)"
    by (simp add: comp_def)
  ultimately show ?thesis
    using classify_asin_ignores_price_and_demand by blast
qed

text \<open>
  Claim C10, as amended. For two series that are permutations of each other, rule A
  matches for the one exactly when it matches for the other, and so does rule B: the
  band filters and the maxima do not depend on the order of the rows. The two results
  are the same tuple whenever the mean of the light band is the same number for both
  orders, as it is for the arithmetic mean. The mean of pandas is a floating-point sum
  taken in row order, so it can differ between the two orders, and then one order can
  give C and the other D.
\<close>

theorem classify_asin_permutation_up_to_mean:
  assumes "mset xs = mset ys"
  shows "(classify_asin mean xs threshold_high light_max deep_min = Inr result_A
          \<longleftrightarrow> classify_asin mean ys threshold_high light_max deep_min = Inr result_A)
       \<and> (classify_asin mean xs threshold_high light_max deep_min = Inr result_B
          \<longleftrightarrow> classify_asin mean ys threshold_high light_max deep_min = Inr result_B)
       \<and> (mean (map elasticity
                  (filter (\<lambda>r. discount_pct r \<ge> 5 \<and> discount_pct r \<le> light_max) xs))
          = mean (map elasticity
                  (filter (\<lambda>r. discount_pct r \<ge> 5 \<and> discount_pct r \<le> light_max) ys))
          \<longrightarrow> classify_asin mean xs threshold_high light_max deep_min
              = classify_asin mean ys threshold_high light_max deep_min)"
proof -
  note d = band_mset_cong [OF assms, of "\<lambda>r. discount_pct r \<ge> deep_min"]
  note l = band_mset_cong [OF assms, of "\<lambda>r. discount_pct r \<ge> 5 \<and> discount_pct r \<le> light_max"]
  note agg = band_aggregates_mset [OF d l]
  have a: "classify_asin mean xs threshold_high light_max deep_min = Inr result_A
          \<longleftrightarrow> classify_asin mean ys threshold_high light_max deep_min = Inr result_A"
    unfolding classify_asin_is_A by (rule agg(1))
  have b: "classify_asin mean xs threshold_high light_max deep_min = Inr result_B
          \<longleftrightarrow> classify_asin mean ys threshold_high light_max deep_min = Inr result_B"
    unfolding classify_asin_is_B by (simp only: agg(1,2))
  have c: "classify_asin mean xs threshold_high light_max deep_min
              = classify_asin mean ys threshold_high light_max deep_min"
    if "mean (map elasticity
                  (filter (\<lambda>r. discount_pct r \<ge> 5 \<and> discount_pct r \<le> light_max) xs))
          = mean (map elasticity
                  (filter (\<lambda>r. discount_pct r \<ge> 5 \<and> discount_pct r \<le> light_max) ys))"
    using d l that by (rule classify_asin_cong)
  from a b c show ?thesis by blast
qed

text \<open>
  The product B0SAMPLE01 of the sample data and its rows in reverse order, with the
  arithmetic mean.
\<close>

theorem classify_asin_permutation_up_to_mean_witness:
  "classify_asin arith_mean
     (rev (filter (\<lambda>r. ASIN r = IdStr (ascii ''B0SAMPLE01'')) sample_df)) 10 12 15
   = classify_asin arith_mean (filter (\<lambda>r. ASIN r = IdStr (ascii ''B0SAMPLE01'')) sample_df) 10 12 15
   \<and> rev (filter (\<lambda>r. ASIN r = IdStr (ascii ''B0SAMPLE01'')) sample_df)
     \<noteq> filter (\<lambda>r. ASIN r = IdStr (ascii ''B0SAMPLE01'')) sample_df"
proof -
  have "rev (filter (\<lambda>r. ASIN r = IdStr (ascii ''B0SAMPLE01'')) sample_df)
     \<noteq> filter (\<lambda>r. ASIN r = IdStr (ascii ''B0SAMPLE01'')) sample_df"
    by (simp add: sample_df_def sample_data_def add_discount_pct_def ascii_def)
  moreover have "mset (rev (filter (\<lambda>r. ASIN r = IdStr (ascii ''B0SAMPLE01'')) sample_df))
      = mset (filter (\<lambda>r. ASIN r = IdStr (ascii ''B0SAMPLE01'')) sample_df)"
    by simp
  moreover have "arith_mean (map elasticity (filter (\<lambda>r. discount_pct r \<ge> 5 \<and> discount_pct r \<le> 12)
        (rev (filter (\<lambda>r. ASIN r = IdStr (ascii ''B0SAMPLE01'')) sample_df))))
      = arith_mean (map elasticity (filter (\<lambda>r. discount_pct r \<ge> 5 \<and> discount_pct r \<le> 12)
        (filter (\<lambda>r. ASIN r = IdStr (ascii ''B0SAMPLE01'')) sample_df)))"
    by (simp add: sample_df_def sample_data_def add_discount_pct_def ascii_def arith_mean_def)
  ultimately show ?thesis
    using classify_asin_permutation_up_to_mean by blast
qed

text \<open>
  The claim as stated fails for the floating-point mean. Three observations at 6
  percent whose elasticities are the \<open>float64\<close> numbers nearest to 0.3, -0.4 and 0.1: in
  this order the rounded sum is -1 / 2^55, the mean is negative and the result is C; with
  the last two exchanged the rounded sum is 0, the mean is 0 and the result is D.
\<close>

theorem classify_asin_permutation_counterexample:
  "classify_asin fl64_mean
     [obs_at_6 (5404319552844595 / 2 ^ 54), obs_at_6 (- 3602879701896397 / 2 ^ 53),
      obs_at_6 (3602879701896397 / 2 ^ 55)] 10 12 15 = Inr result_C
   \<and> classify_asin fl64_mean
     [obs_at_6 (5404319552844595 / 2 ^ 54), obs_at_6 (3602879701896397 / 2 ^ 55),
      obs_at_6 (- 3602879701896397 / 2 ^ 53)] 10 12 15 = Inr result_D
   \<and> mset [obs_at_6 (5404319552844595 / 2 ^ 54), obs_at_6 (- 3602879701896397 / 2 ^ 53),
            obs_at_6 (3602879701896397 / 2 ^ 55)]
     = mset [obs_at_6 (5404319552844595 / 2 ^ 54), obs_at_6 (3602879701896397 / 2 ^ 55),
             obs_at_6 (- 3602879701896397 / 2 ^ 53)]
   \<and> result_C \<noteq> result_D"
proof -
  have c: "classify_asin fl64_mean
     [obs_at_6 (5404319552844595 / 2 ^ 54), obs_at_6 (- 3602879701896397 / 2 ^ 53),
      obs_at_6 (3602879701896397 / 2 ^ 55)] 10 12 15 = Inr result_C"
    unfolding classify_asin_closed
    by (simp add: obs_at_6_def fl64_mean_03_m04_01 [simplified])
  have d: "classify_asin fl64_mean
     [obs_at_6 (5404319552844595 / 2 ^ 54), obs_at_6 (3602879701896397 / 2 ^ 55),
      obs_at_6 (- 3602879701896397 / 2 ^ 53)] 10 12 15 = Inr result_D"
    unfolding classify_asin_closed
    by (simp add: obs_at_6_def fl64_mean_03_01_m04 [simplified])
  have "result_C \<noteq> result_D"
    using results_distinct by simp
  with c d show ?thesis by simp
qed

section \<open>Facts about the loop of the report\<close>

lemma graph_step_none:
  assumes "sv (filter (\<lambda>r. ASIN r = pid) df) = []"
  shows "graph_step mean sv df names th (i, pid) (fig, res) = Inr (fig, res)"
  using assms by (simp add: graph_step_def)

lemma classify_asin_Inr:
  "\<exists>letter label recommendation color.
     classify_asin mean obs th lm dm = Inr (letter, label, recommendation, color)"
proof -
  obtain c where "classify_asin mean obs th lm dm = Inr c"
    unfolding classify_asin_closed by blast
  then show ?thesis by (cases c) auto
qed

lemma display_name_spec:
  "(if dict_get names pid pid \<noteq> pid then dict_get names pid pid else IdStr [])
     = spec_display_name names pid"
  by (cases pid) (auto simp add: dict_get_def spec_display_name_def split: option.splits)

lemma graph_step_some:
  assumes "sv (filter (\<lambda>r. ASIN r = pid) df) \<noteq> []"
  shows "\<exists>tr row. graph_step mean sv df names th (i, pid) (fig, res)
            = Inr (fig\<lparr>traces := traces fig @ [tr]\<rparr>, res @ [row])
          \<and> spec_row_for mean sv df names th pid row
          \<and> spec_trace_for mean sv df names th pid tr"
proof -
  define obs where "obs = sv (filter (\<lambda>r. ASIN r = pid) df)"
  define dn where "dn = dict_get names pid pid"
  from assms have ne: "obs \<noteq> []" by (simp add: obs_def)
  then have price: "iloc0 (map list_price obs) = Inr (list_price (hd obs))"
    by (cases obs) (simp_all add: iloc0_def)
  obtain letter label recommendation color
    where c: "classify_asin mean obs th 12 15 = Inr (letter, label, recommendation, color)"
    using classify_asin_Inr by blast
  define tr where "tr =
     \<lparr>tr_x = map discount_pct obs, tr_y = map elasticity obs,
      tr_mode = ascii ''lines+markers'',
      tr_name = py_format_id dn @ ascii '' ('' @ letter @ ascii '')'',
      tr_line_color = colors ! (i mod length colors),
      tr_line_width = 5 / 2, tr_marker_size = 8,
      tr_hovertemplate =
        ascii ''<b>'' @ py_format_id dn @ ascii ''</b><br>''
        @ [20516, 24341, 12365, 29575] @ ascii '': %{x:.0f}%<br>''
        @ [24382, 21147, 24615] @ ascii '': %{y:.1f}<br>''
        @ ascii ''<extra></extra>''\<rparr>"
  define row where "row =
     \<lparr>res_ASIN = pid, res_name = (if dn \<noteq> pid then dn else IdStr []),
      res_pattern = letter @ ascii ''. '' @ label,
      res_recommendation = recommendation,
      res_list_price = list_price (hd obs)\<rparr>"
  have "graph_step mean sv df names th (i, pid) (fig, res) = Inr (add_trace fig tr, res @ [row])"
    unfolding graph_step_def obs_def [symmetric] dn_def [symmetric] Let_def prod.case
    using ne by (simp add: c price bind_err_Inr tr_def row_def)
  moreover have "spec_row_for mean sv df names th pid row"
    unfolding spec_row_for_def obs_def [symmetric] Let_def row_def dn_def display_name_spec
    using ne by (simp add: c)
  moreover have "spec_trace_for mean sv df names th pid tr"
    unfolding spec_trace_for_def obs_def [symmetric] Let_def
    by (simp add: c tr_def dn_def)
  ultimately show ?thesis
    unfolding add_trace_def by blast
qed

lemma graph_loop_closed:
  "\<exists>trs rows. graph_loop mean sv df names th ias (fig, res)
       = Inr (fig\<lparr>traces := traces fig @ trs\<rparr>, res @ rows)
     \<and> list_all2 (spec_row_for mean sv df names th)
           (filter (\<lambda>a. sv (filter (\<lambda>r. ASIN r = a) df) \<noteq> []) (map snd ias)) rows
     \<and> list_all2 (spec_trace_for mean sv df names th)
           (filter (\<lambda>a. sv (filter (\<lambda>r. ASIN r = a) df) \<noteq> []) (map snd ias)) trs"
proof (induction ias arbitrary: fig res)
  case Nil
  show ?case
    by (rule exI [of _ "[]"], rule exI [of _ "[]"]) simp
next
  case (Cons ia ias)
  obtain i pid where ia: "ia = (i, pid)" by (cases ia)
  show ?case
  proof (cases "sv (filter (\<lambda>r. ASIN r = pid) df) = []")
    case True
    then have "graph_loop mean sv df names th (ia # ias) (fig, res)
        = graph_loop mean sv df names th ias (fig, res)"
      by (simp add: ia graph_step_none bind_err_Inr)
    moreover have "filter (\<lambda>a. sv (filter (\<lambda>r. ASIN r = a) df) \<noteq> []) (map snd (ia # ias))
        = filter (\<lambda>a. sv (filter (\<lambda>r. ASIN r = a) df) \<noteq> []) (map snd ias)"
      using True by (simp add: ia)
    ultimately show ?thesis using Cons.IH [of fig res] by simp
  next
    case False
    then obtain tr row where
      step: "graph_step mean sv df names th (i, pid) (fig, res)
            = Inr (fig\<lparr>traces := traces fig @ [tr]\<rparr>, res @ [row])"
      and row: "spec_row_for mean sv df names th pid row"
      and tr: "spec_trace_for mean sv df names th pid tr"
      using graph_step_some by blast
    obtain trs rows where
      rest: "graph_loop mean sv df names th ias (fig\<lparr>traces := traces fig @ [tr]\<rparr>, res @ [row])
          = Inr (fig\<lparr>traces := traces fig @ [tr]\<rparr>
                   \<lparr>traces := traces (fig\<lparr>traces := traces fig @ [tr]\<rparr>) @ trs\<rparr>,
                 (res @ [row]) @ rows)"
      and rows: "list_all2 (spec_row_for mean sv df names th)
           (filter (\<lambda>a. sv (filter (\<lambda>r. ASIN r = a) df) \<noteq> []) (map snd ias)) rows"
      and trs: "list_all2 (spec_trace_for mean sv df names th)
           (filter (\<lambda>a. sv (filter (\<lambda>r. ASIN r = a) df) \<noteq> []) (map snd ias)) trs"
      using Cons.IH [of "fig\<lparr>traces := traces fig @ [tr]\<rparr>" "res @ [row]"] by blast
    have "graph_loop mean sv df names th (ia # ias) (fig, res)
        = Inr (fig\<lparr>traces := traces fig @ (tr # trs)\<rparr>, res @ (row # rows))"
      by (simp add: ia step rest bind_err_Inr)
    moreover have "filter (\<lambda>a. sv (filter (\<lambda>r. ASIN r = a) df) \<noteq> []) (map snd (ia # ias))
        = pid # filter (\<lambda>a. sv (filter (\<lambda>r. ASIN r = a) df) \<noteq> []) (map snd ias)"
      using False by (simp add: ia)
    moreover have "list_all2 (spec_row_for mean sv df names th)
        (pid # filter (\<lambda>a. sv (filter (\<lambda>r. ASIN r = a) df) \<noteq> []) (map snd ias)) (row # rows)"
      using row rows by simp
    moreover have "list_all2 (spec_trace_for mean sv df names th)
        (pid # filter (\<lambda>a. sv (filter (\<lambda>r. ASIN r = a) df) \<noteq> []) (map snd ias)) (tr # trs)"
      using tr trs by simp
    ultimately show ?thesis by metis
  qed
qed

lemma set_unique: "set (unique xs) = set xs"
  by (induction xs rule: unique.induct) auto

lemma distinct_unique: "distinct (unique xs)"
  by (induction xs rule: unique.induct) (auto simp add: set_unique)

lemma first_pos_Cons:
  "first_pos a (x # xs) = (if a = x then 0 else Suc (first_pos a xs))"
  by (auto simp add: first_pos_def)

lemma first_pos_filter_mono:
  "a \<noteq> x \<Longrightarrow> b \<noteq> x \<Longrightarrow>
   first_pos a (filter (\<lambda>y. y \<noteq> x) xs) < first_pos b (filter (\<lambda>y. y \<noteq> x) xs) \<Longrightarrow>
   first_pos a xs < first_pos b xs"
  by (induction xs) (auto simp add: first_pos_Cons split: if_splits)

lemma unique_first_seen:
  "sorted_wrt (\<lambda>a b. first_pos a xs < first_pos b xs) (unique xs)"
proof (induction xs rule: unique.induct)
  case 1
  then show ?case by simp
next
  case (2 x xs)
  have "sorted_wrt (\<lambda>a b. first_pos a (x # xs) < first_pos b (x # xs))
          (unique (filter (\<lambda>y. y \<noteq> x) xs))"
  proof (rule sorted_wrt_mono_rel [OF _ "2.IH"])
    fix a b
    assume "a \<in> set (unique (filter (\<lambda>y. y \<noteq> x) xs))" "b \<in> set (unique (filter (\<lambda>y. y \<noteq> x) xs))"
      and lt: "first_pos a (filter (\<lambda>y. y \<noteq> x) xs) < first_pos b (filter (\<lambda>y. y \<noteq> x) xs)"
    then have "a \<noteq> x" "b \<noteq> x" by (auto simp add: set_unique)
    with lt show "first_pos a (x # xs) < first_pos b (x # xs)"
      by (simp add: first_pos_Cons first_pos_filter_mono)
  qed
  moreover have "\<forall>b \<in> set (unique (filter (\<lambda>y. y \<noteq> x) xs)).
      first_pos x (x # xs) < first_pos b (x # xs)"
    by (auto simp add: set_unique first_pos_Cons)
  ultimately show ?case by simp
qed

lemma generate_graph_closed:
  "\<exists>trs rows. generate_graph mean sv fmt df names th tlow =
      Inr (\<lparr>shapes =
              [HRect th 50 (ascii ''green'') (1 / 10) (ascii ''below'') 0,
               HRect (- 30) tlow (ascii ''red'') (1 / 10) (ascii ''below'') 0,
               HLine tlow (ascii ''solid'') (ascii ''gray'') (3 / 2) None None,
               HLine th (ascii ''dash'') (ascii ''green'') 2
                 (Some ([25512, 22888, 12478, 12540, 12531] @ ascii '' (''
                        @ [24382, 21147, 24615] @ ascii ''>'' @ fmt th @ ascii '')''))
                 (Some (ascii ''top right''))],
            traces = trs,
            fig_layout = Some final_layout,
            xaxes = Some \<lparr>tickvals = Some [5, 10, 15, 20, 25], gridcolor = ascii ''lightgray'',
                           gridwidth = 1 / 2, axis_range = (3, 25)\<rparr>,
            yaxes = Some \<lparr>tickvals = None, gridcolor = ascii ''lightgray'',
                           gridwidth = 1 / 2, axis_range = (- 25, 50)\<rparr>\<rparr>, rows)
    \<and> list_all2 (spec_row_for mean sv df names th)
          (filter (\<lambda>a. sv (filter (\<lambda>r. ASIN r = a) df) \<noteq> []) (unique (map ASIN df))) rows
    \<and> list_all2 (spec_trace_for mean sv df names th)
          (filter (\<lambda>a. sv (filter (\<lambda>r. ASIN r = a) df) \<noteq> []) (unique (map ASIN df))) trs"
proof -
  define fig4 where "fig4 =
    \<lparr>shapes =
              [HRect th 50 (ascii ''green'') (1 / 10) (ascii ''below'') 0,
               HRect (- 30) tlow (ascii ''red'') (1 / 10) (ascii ''below'') 0,
               HLine tlow (ascii ''solid'') (ascii ''gray'') (3 / 2) None None,
               HLine th (ascii ''dash'') (ascii ''green'') 2
                 (Some ([25512, 22888, 12478, 12540, 12531] @ ascii '' (''
                        @ [24382, 21147, 24615] @ ascii ''>'' @ fmt th @ ascii '')''))
                 (Some (ascii ''top right''))],
      traces = [], fig_layout = None, xaxes = None, yaxes = None\<rparr>"
  have ids: "map snd (enumerate 0 (unique (map ASIN df))) = unique (map ASIN df)"
    by simp
  obtain trs rows where
    loop: "graph_loop mean sv df names th (enumerate 0 (unique (map ASIN df))) (fig4, [])
       = Inr (fig4\<lparr>traces := traces fig4 @ trs\<rparr>, [] @ rows)"
    and rows: "list_all2 (spec_row_for mean sv df names th)
          (filter (\<lambda>a. sv (filter (\<lambda>r. ASIN r = a) df) \<noteq> []) (unique (map ASIN df))) rows"
    and trs: "list_all2 (spec_trace_for mean sv df names th)
          (filter (\<lambda>a. sv (filter (\<lambda>r. ASIN r = a) df) \<noteq> []) (unique (map ASIN df))) trs"
    using graph_loop_closed [of mean sv df names th "enumerate 0 (unique (map ASIN df))" fig4 "[]"]
    unfolding ids by blast
  have pre: "add_shape (add_shape (add_shape (add_shape empty_figure
        (HRect th 50 (ascii ''green'') (1 / 10) (ascii ''below'') 0))
        (HRect (- 30) tlow (ascii ''red'') (1 / 10) (ascii ''below'') 0))
        (HLine tlow (ascii ''solid'') (ascii ''gray'') (3 / 2) None None))
        (HLine th (ascii ''dash'') (ascii ''green'') 2
                 (Some ([25512, 22888, 12478, 12540, 12531] @ ascii '' (''
                        @ [24382, 21147, 24615] @ ascii ''>'' @ fmt th @ ascii '')''))
                 (Some (ascii ''top right''))) = fig4"
    by (simp add: add_shape_def empty_figure_def fig4_def)
  have "generate_graph mean sv fmt df names th tlow =
      Inr ((fig4\<lparr>traces := traces fig4 @ trs\<rparr>)
             \<lparr>fig_layout := Some final_layout,
              xaxes := Some \<lparr>tickvals = Some [5, 10, 15, 20, 25], gridcolor = ascii ''lightgray'',
                           gridwidth = 1 / 2, axis_range = (3, 25)\<rparr>,
              yaxes := Some \<lparr>tickvals = None, gridcolor = ascii ''lightgray'',
                           gridwidth = 1 / 2, axis_range = (- 25, 50)\<rparr>\<rparr>, rows)"
    unfolding generate_graph_def Let_def pre
    by (simp add: loop bind_err_Inr)
  then show ?thesis
    using rows trs by (simp add: fig4_def)
qed

lemma sorts_Nil_iff:
  assumes "sorts_by_discount_pct sv"
  shows "sv xs = [] \<longleftrightarrow> xs = []"
proof -
  from assms have "mset (sv xs) = mset xs"
    by (simp add: sorts_by_discount_pct_def)
  then show ?thesis by (metis mset_zero_iff)
qed

lemma sorts_product_ids:
  assumes "sorts_by_discount_pct sv"
  shows "filter (\<lambda>a. sv (filter (\<lambda>r. ASIN r = a) df) \<noteq> []) asins
       = filter (\<lambda>a. a \<in> ASIN ` set df) asins"
proof (rule filter_cong [OF refl])
  fix a
  have "filter (\<lambda>r. ASIN r = a) df \<noteq> [] \<longleftrightarrow> a \<in> ASIN ` set df"
    by (auto simp add: filter_empty_conv)
  then show "(sv (filter (\<lambda>r. ASIN r = a) df) \<noteq> []) = (a \<in> ASIN ` set df)"
    using sorts_Nil_iff [OF assms] by simp
qed

lemma sorts_unique_ids:
  assumes "sorts_by_discount_pct sv"
  shows "filter (\<lambda>a. sv (filter (\<lambda>r. ASIN r = a) df) \<noteq> []) (unique (map ASIN df))
       = unique (map ASIN df)"
  unfolding sorts_product_ids [OF assms] by (simp add: set_unique)

lemma sort_key_sorts: "sorts_by_discount_pct (sort_key discount_pct)"
  by (simp add: sorts_by_discount_pct_def)

lemma spec_row_for_ASIN: "spec_row_for mean sv df names th pid row \<Longrightarrow> res_ASIN row = pid"
  by (auto simp add: spec_row_for_def Let_def split: sum.splits)

lemma spec_row_for_price:
  assumes "sorts_by_discount_pct sv" and "spec_row_for mean sv df names th pid row"
  shows "\<exists>r \<in> set df. ASIN r = res_ASIN row \<and> res_list_price row = list_price r
           \<and> (\<forall>r' \<in> set df. ASIN r' = res_ASIN row \<longrightarrow> discount_pct r \<le> discount_pct r')"
proof -
  define obs where "obs = sv (filter (\<lambda>r. ASIN r = pid) df)"
  from assms(2) have ne: "obs \<noteq> []" and price: "res_list_price row = list_price (hd obs)"
    and pid: "res_ASIN row = pid"
    by (auto simp add: spec_row_for_def obs_def Let_def split: sum.splits)
  from assms(1) have "mset obs = mset (filter (\<lambda>r. ASIN r = pid) df)"
    and srt: "sorted (map discount_pct obs)"
    by (simp_all add: sorts_by_discount_pct_def obs_def)
  then have set: "set obs = {r \<in> set df. ASIN r = pid}"
    by (metis mset_eq_setD set_filter)
  obtain r rs where obs: "obs = r # rs"
    using ne by (cases obs) auto
  have "r \<in> set df" "ASIN r = pid"
    using set obs by auto
  moreover have "discount_pct r \<le> discount_pct r'" if "r' \<in> set df" "ASIN r' = pid" for r'
  proof -
    from that set have "r' \<in> set obs" by simp
    with srt obs show ?thesis by auto
  qed
  ultimately show ?thesis
    using price pid obs by auto
qed

lemma list_all2_map_eq:
  "list_all2 P xs ys \<Longrightarrow> (\<And>x y. P x y \<Longrightarrow> f y = x) \<Longrightarrow> map f ys = xs"
  by (induction rule: list_all2_induct) auto

lemma list_all2_setD:
  "list_all2 P xs ys \<Longrightarrow> y \<in> set ys \<Longrightarrow> \<exists>x \<in> set xs. P x y"
  by (induction rule: list_all2_induct) auto

lemma split_at_first:
  "sep \<notin> set a \<Longrightarrow>
   takeWhile (\<lambda>c. c \<noteq> sep) (a @ sep # b) = a \<and> dropWhile (\<lambda>c. c \<noteq> sep) (a @ sep # b) = sep # b"
  by (induction a) auto

lemma py_split1_at: "sep \<notin> set a \<Longrightarrow> py_split1 sep (a @ sep # b) = [a, b]"
  by (simp add: py_split1_def split_at_first)

lemma sample_ids: "unique (map ASIN sample_df) =
   [IdStr (ascii ''B0SAMPLE01''), IdStr (ascii ''B0SAMPLE02''),
    IdStr (ascii ''B0SAMPLE03''), IdStr (ascii ''B0SAMPLE04'')]"
  by (simp add: sample_df_def sample_data_def add_discount_pct_def ascii_def)

lemma sample_names: "parse_names (ascii ''B0SAMPLE01'' @ 9 # ascii ''Tea'')
    = Map.empty(ascii ''B0SAMPLE01'' \<mapsto> ascii ''Tea'')"
  by (simp add: parse_names_def names_step_def py_split1_def ascii_def py_strip_def py_isspace_def)

section \<open>The report and the chart\<close>

text \<open>
  Claim C6. For every data frame, name mapping and threshold, and every
  \<open>sort_values\<close> that returns the rows of a product as a permutation in ascending order
  of \<open>discount_pct\<close>, \<open>generate_graph\<close> returns (it raises nothing) a result table with
  exactly one row for each distinct product id of the data frame: the ids of the rows
  are the distinct ids, each once, in the order in which they first occur in the column
  of ids, so the order of the rows depends on nothing else. Each row is the one that
  section 4.2 describes (\<open>spec_row_for\<close>): the id; a display name that is empty when the
  mapping has no entry for the id or maps the id to itself; the letter and label joined
  as \<open><letter>. <label>\<close>; the recommendation; and the list price of the first
  observation after the sort, which is an observation of that product with the least
  \<open>discount_pct\<close>. The loop itself, run over any list of ids, passes over the ids that
  have no observation in the data frame.
\<close>

theorem generate_graph_report_rows:
  assumes "sorts_by_discount_pct sort_values"
  shows "(\<exists>fig results.
        generate_graph mean sort_values fmt df names th tlow = Inr (fig, results)
        \<and> list_all2 (spec_row_for mean sort_values df names th) (unique (map ASIN df)) results
        \<and> map res_ASIN results = unique (map ASIN df)
        \<and> (\<forall>row \<in> set results. \<exists>r \<in> set df.
              ASIN r = res_ASIN row \<and> res_list_price row = list_price r
              \<and> (\<forall>r' \<in> set df. ASIN r' = res_ASIN row \<longrightarrow> discount_pct r \<le> discount_pct r')))
   \<and> distinct (unique (map ASIN df))
   \<and> set (unique (map ASIN df)) = ASIN ` set df
   \<and> sorted_wrt (\<lambda>a b. first_pos a (map ASIN df) < first_pos b (map ASIN df))
        (unique (map ASIN df))
   \<and> (\<exists>fig' results'.
        graph_loop mean sort_values df names th (enumerate n asins) (fig0, []) = Inr (fig', results')
        \<and> map res_ASIN results' = filter (\<lambda>a. a \<in> ASIN ` set df) asins)"
proof -
  obtain trs rows where
    g: "generate_graph mean sort_values fmt df names th tlow =
      Inr (\<lparr>shapes =
              [HRect th 50 (ascii ''green'') (1 / 10) (ascii ''below'') 0,
               HRect (- 30) tlow (ascii ''red'') (1 / 10) (ascii ''below'') 0,
               HLine tlow (ascii ''solid'') (ascii ''gray'') (3 / 2) None None,
               HLine th (ascii ''dash'') (ascii ''green'') 2
                 (Some ([25512, 22888, 12478, 12540, 12531] @ ascii '' (''
                        @ [24382, 21147, 24615] @ ascii ''>'' @ fmt th @ ascii '')''))
                 (Some (ascii ''top right''))],
            traces = trs,
            fig_layout = Some final_layout,
            xaxes = Some \<lparr>tickvals = Some [5, 10, 15, 20, 25], gridcolor = ascii ''lightgray'',
                           gridwidth = 1 / 2, axis_range = (3, 25)\<rparr>,
            yaxes = Some \<lparr>tickvals = None, gridcolor = ascii ''lightgray'',
                           gridwidth = 1 / 2, axis_range = (- 25, 50)\<rparr>\<rparr>, rows)"
    and rows: "list_all2 (spec_row_for mean sort_values df names th) (unique (map ASIN df)) rows"
    using generate_graph_closed [of mean sort_values fmt df names th tlow]
    unfolding sorts_unique_ids [OF assms] by blast
  from rows have ids: "map res_ASIN rows = unique (map ASIN df)"
    by (rule list_all2_map_eq) (rule spec_row_for_ASIN)
  have prices: "\<forall>row \<in> set rows. \<exists>r \<in> set df.
              ASIN r = res_ASIN row \<and> res_list_price row = list_price r
              \<and> (\<forall>r' \<in> set df. ASIN r' = res_ASIN row \<longrightarrow> discount_pct r \<le> discount_pct r')"
  proof
    fix row
    assume "row \<in> set rows"
    with list_all2_setD [OF rows] obtain pid
      where "spec_row_for mean sort_values df names th pid row"
      by blast
    with assms show "\<exists>r \<in> set df.
              ASIN r = res_ASIN row \<and> res_list_price row = list_price r
              \<and> (\<forall>r' \<in> set df. ASIN r' = res_ASIN row \<longrightarrow> discount_pct r \<le> discount_pct r')"
      by (rule spec_row_for_price)
  qed
  from g rows ids prices have first: "\<exists>fig results.
        generate_graph mean sort_values fmt df names th tlow = Inr (fig, results)
        \<and> list_all2 (spec_row_for mean sort_values df names th) (unique (map ASIN df)) results
        \<and> map res_ASIN results = unique (map ASIN df)
        \<and> (\<forall>row \<in> set results. \<exists>r \<in> set df.
              ASIN r = res_ASIN row \<and> res_list_price row = list_price r
              \<and> (\<forall>r' \<in> set df. ASIN r' = res_ASIN row \<longrightarrow> discount_pct r \<le> discount_pct r'))"
    by (intro exI conjI)
  obtain trs' rows' where
    l: "graph_loop mean sort_values df names th (enumerate n asins) (fig0, [])
         = Inr (fig0\<lparr>traces := traces fig0 @ trs'\<rparr>, [] @ rows')"
    and rows': "list_all2 (spec_row_for mean sort_values df names th)
         (filter (\<lambda>a. a \<in> ASIN ` set df) (map snd (enumerate n asins))) rows'"
    using graph_loop_closed [of mean sort_values df names th "enumerate n asins" fig0 "[]"]
    unfolding sorts_product_ids [OF assms] by blast
  from rows' have "map res_ASIN rows'
      = filter (\<lambda>a. a \<in> ASIN ` set df) (map snd (enumerate n asins))"
    by (rule list_all2_map_eq) (rule spec_row_for_ASIN)
  with l have last: "\<exists>fig' results'.
        graph_loop mean sort_values df names th (enumerate n asins) (fig0, []) = Inr (fig', results')
        \<and> map res_ASIN results' = filter (\<lambda>a. a \<in> ASIN ` set df) asins"
    by simp
  have ids_set: "set (unique (map ASIN df)) = ASIN ` set df"
    by (simp add: set_unique)
  show ?thesis
    by (intro conjI first last ids_set distinct_unique unique_first_seen)
qed

text \<open>
  The sample data with a name for B0SAMPLE01 only, sorted by the stable insertion sort:
  four rows, in the order of the text; the list price of B0SAMPLE04 is the one of its
  observation at 5 percent, the second of its rows in the text.
\<close>

theorem generate_graph_report_rows_witness:
  "\<exists>fig. generate_graph arith_mean (sort_key discount_pct) (\<lambda>x. ascii ''10.0'') sample_df
           (parse_names (ascii ''B0SAMPLE01'' @ 9 # ascii ''Tea'')) 10 0 =
     Inr (fig,
       [\<lparr>res_ASIN = IdStr (ascii ''B0SAMPLE01''), res_name = IdStr (ascii ''Tea''),
         res_pattern = ascii ''A. '' @ [38334, 20516, 31361, 30772, 22411],
         res_recommendation = ascii ''20%'' @ [12458, 12501, 25512, 22888],
         res_list_price = 1500\<rparr>,
        \<lparr>res_ASIN = IdStr (ascii ''B0SAMPLE02''), res_name = IdStr [],
         res_pattern = ascii ''A. '' @ [38334, 20516, 31361, 30772, 22411],
         res_recommendation = ascii ''20%'' @ [12458, 12501, 25512, 22888],
         res_list_price = 3000\<rparr>,
        \<lparr>res_ASIN = IdStr (ascii ''B0SAMPLE03''), res_name = IdStr [],
         res_pattern = ascii ''B. '' @ [36605, 20516, 24341, 12365, 21453, 24540, 22411],
         res_recommendation = ascii ''5-10%'' @ [12458, 12501, 25512, 22888],
         res_list_price = 1800\<rparr>,
        \<lparr>res_ASIN = IdStr (ascii ''B0SAMPLE04''), res_name = IdStr [],
         res_pattern = ascii ''C. '' @ [20302, 31354, 39131, 34892, 22411],
         res_recommendation = [12475, 12540, 12523, 35211, 36865, 12426],
         res_list_price = 1545\<rparr>])"
proof -
  obtain fig results where
    g: "generate_graph arith_mean (sort_key discount_pct) (\<lambda>x. ascii ''10.0'') sample_df
           (parse_names (ascii ''B0SAMPLE01'' @ 9 # ascii ''Tea'')) 10 0 = Inr (fig, results)"
    and rows: "list_all2
        (spec_row_for arith_mean (sort_key discount_pct) sample_df
           (parse_names (ascii ''B0SAMPLE01'' @ 9 # ascii ''Tea'')) 10)
        (unique (map ASIN sample_df)) results"
    using generate_graph_report_rows
      [OF sort_key_sorts, of arith_mean "\<lambda>x. ascii ''10.0''" sample_df
        "parse_names (ascii ''B0SAMPLE01'' @ 9 # ascii ''Tea'')" 10 0, THEN conjunct1]
    by (elim exE conjE) (rule that)
  from rows obtain r1 r2 r3 r4 where
    res: "results = [r1, r2, r3, r4]"
    and r1: "spec_row_for arith_mean (sort_key discount_pct) sample_df
               (parse_names (ascii ''B0SAMPLE01'' @ 9 # ascii ''Tea'')) 10
               (IdStr (ascii ''B0SAMPLE01'')) r1"
    and r2: "spec_row_for arith_mean (sort_key discount_pct) sample_df
               (parse_names (ascii ''B0SAMPLE01'' @ 9 # ascii ''Tea'')) 10
               (IdStr (ascii ''B0SAMPLE02'')) r2"
    and r3: "spec_row_for arith_mean (sort_key discount_pct) sample_df
               (parse_names (ascii ''B0SAMPLE01'' @ 9 # ascii ''Tea'')) 10
               (IdStr (ascii ''B0SAMPLE03'')) r3"
    and r4: "spec_row_for arith_mean (sort_key discount_pct) sample_df
               (parse_names (ascii ''B0SAMPLE01'' @ 9 # ascii ''Tea'')) 10
               (IdStr (ascii ''B0SAMPLE04'')) r4"
    unfolding sample_ids by (auto simp add: list_all2_Cons1)
  have e1: "r1 = \<lparr>res_ASIN = IdStr (ascii ''B0SAMPLE01''), res_name = IdStr (ascii ''Tea''),
         res_pattern = ascii ''A. '' @ [38334, 20516, 31361, 30772, 22411],
         res_recommendation = ascii ''20%'' @ [12458, 12501, 25512, 22888],
         res_list_price = 1500\<rparr>"
    using r1 unfolding spec_row_for_def sample_names classify_asin_closed
    by (simp add: sample_df_def sample_data_def add_discount_pct_def ascii_def
        spec_display_name_def result_A_def)
  have e2: "r2 = \<lparr>res_ASIN = IdStr (ascii ''B0SAMPLE02''), res_name = IdStr [],
         res_pattern = ascii ''A. '' @ [38334, 20516, 31361, 30772, 22411],
         res_recommendation = ascii ''20%'' @ [12458, 12501, 25512, 22888],
         res_list_price = 3000\<rparr>"
    using r2 unfolding spec_row_for_def sample_names classify_asin_closed
    by (simp add: sample_df_def sample_data_def add_discount_pct_def ascii_def
        spec_display_name_def result_A_def)
  have e3: "r3 = \<lparr>res_ASIN = IdStr (ascii ''B0SAMPLE03''), res_name = IdStr [],
         res_pattern = ascii ''B. '' @ [36605, 20516, 24341, 12365, 21453, 24540, 22411],
         res_recommendation = ascii ''5-10%'' @ [12458, 12501, 25512, 22888],
         res_list_price = 1800\<rparr>"
    using r3 unfolding spec_row_for_def sample_names classify_asin_closed
    by (simp add: sample_df_def sample_data_def add_discount_pct_def ascii_def
        spec_display_name_def result_B_def)
  have e4: "r4 = \<lparr>res_ASIN = IdStr (ascii ''B0SAMPLE04''), res_name = IdStr [],
         res_pattern = ascii ''C. '' @ [20302, 31354, 39131, 34892, 22411],
         res_recommendation = [12475, 12540, 12523, 35211, 36865, 12426],
         res_list_price = 1545\<rparr>"
    using r4 unfolding spec_row_for_def sample_names classify_asin_closed
    by (simp add: sample_df_def sample_data_def add_discount_pct_def ascii_def
        spec_display_name_def result_C_def arith_mean_def)
  show ?thesis
    using g unfolding res e1 e2 e3 e4 by blast
qed

text \<open>
  Claim C9. For every threshold pair, the figure that \<open>generate_graph\<close> returns has
  exactly four shapes, in this order: a band from \<open>threshold_high\<close> to 50, a band from
  -30 to \<open>threshold_low\<close>, a solid line at \<open>threshold_low\<close>, and a dashed line at
  \<open>threshold_high\<close> whose annotation holds the formatted value of \<open>threshold_high\<close>;
  its x axis has the range from 3 to 25 and the ticks 5, 10, 15, 20, 25, its y axis the
  range from -25 to 50 and no ticks of its own.
\<close>

theorem generate_graph_static_annotations:
  "\<exists>fig results.
     generate_graph mean sort_values fmt df names threshold_high threshold_low = Inr (fig, results)
     \<and> shapes fig =
         [HRect threshold_high 50 (ascii ''green'') (1 / 10) (ascii ''below'') 0,
               HRect (- 30) threshold_low (ascii ''red'') (1 / 10) (ascii ''below'') 0,
               HLine threshold_low (ascii ''solid'') (ascii ''gray'') (3 / 2) None None,
               HLine threshold_high (ascii ''dash'') (ascii ''green'') 2
                 (Some ([25512, 22888, 12478, 12540, 12531] @ ascii '' (''
                        @ [24382, 21147, 24615] @ ascii ''>'' @ fmt threshold_high @ ascii '')''))
                 (Some (ascii ''top right''))]
     \<and> map_option axis_range (xaxes fig) = Some (3, 25)
     \<and> map_option tickvals (xaxes fig) = Some (Some [5, 10, 15, 20, 25])
     \<and> map_option axis_range (yaxes fig) = Some (- 25, 50)
     \<and> map_option tickvals (yaxes fig) = Some None"
proof -
  obtain trs rows where
    g: "generate_graph mean sort_values fmt df names threshold_high threshold_low =
      Inr (\<lparr>shapes =
              [HRect threshold_high 50 (ascii ''green'') (1 / 10) (ascii ''below'') 0,
               HRect (- 30) threshold_low (ascii ''red'') (1 / 10) (ascii ''below'') 0,
               HLine threshold_low (ascii ''solid'') (ascii ''gray'') (3 / 2) None None,
               HLine threshold_high (ascii ''dash'') (ascii ''green'') 2
                 (Some ([25512, 22888, 12478, 12540, 12531] @ ascii '' (''
                        @ [24382, 21147, 24615] @ ascii ''>'' @ fmt threshold_high @ ascii '')''))
                 (Some (ascii ''top right''))],
            traces = trs,
            fig_layout = Some final_layout,
            xaxes = Some \<lparr>tickvals = Some [5, 10, 15, 20, 25], gridcolor = ascii ''lightgray'',
                           gridwidth = 1 / 2, axis_range = (3, 25)\<rparr>,
            yaxes = Some \<lparr>tickvals = None, gridcolor = ascii ''lightgray'',
                           gridwidth = 1 / 2, axis_range = (- 25, 50)\<rparr>\<rparr>, rows)"
    using generate_graph_closed [of mean sort_values fmt df names threshold_high threshold_low]
    by blast
  show ?thesis
    unfolding g by simp
qed

text \<open>The sample data with the default thresholds 10 and 0.\<close>

theorem generate_graph_static_annotations_witness:
  "\<exists>fig results.
     generate_graph arith_mean (sort_key discount_pct) (\<lambda>x. ascii ''10.0'') sample_df Map.empty 10 0
       = Inr (fig, results)
     \<and> shapes fig =
         [HRect 10 50 (ascii ''green'') (1 / 10) (ascii ''below'') 0,
          HRect (- 30) 0 (ascii ''red'') (1 / 10) (ascii ''below'') 0,
          HLine 0 (ascii ''solid'') (ascii ''gray'') (3 / 2) None None,
          HLine 10 (ascii ''dash'') (ascii ''green'') 2
            (Some ([25512, 22888, 12478, 12540, 12531] @ ascii '' (''
                   @ [24382, 21147, 24615] @ ascii ''>10.0)''))
            (Some (ascii ''top right''))]
     \<and> map_option axis_range (xaxes fig) = Some (3, 25)
     \<and> map_option axis_range (yaxes fig) = Some (- 25, 50)"
  using generate_graph_static_annotations
    [of arith_mean "sort_key discount_pct" "\<lambda>x. ascii ''10.0''" sample_df Map.empty 10 0]
  by (auto simp add: ascii_def)

text \<open>
  Claim C3. The handler of the button gives the same session state whatever
  \<open>light_discount_max\<close> and \<open>deep_discount_min\<close> are configured: it succeeds, and the
  pattern and the recommendation of each row of its result table, and the letter in the
  name of each trace of its chart, are those that \<open>classify_asin\<close> returns for the band
  boundaries 12 and 15. This holds for every mean, every product with 100 and every
  \<open>sort_values\<close> that returns a sorted permutation.
\<close>

theorem on_generate_fixed_bands:
  assumes "sorts_by_discount_pct sort_values"
  shows "on_generate mean sort_values times100 fmt
           (cfg\<lparr>cfg_light_discount_max := a, cfg_deep_discount_min := b\<rparr>) raw inp st
     = on_generate mean sort_values times100 fmt cfg raw inp st
   \<and> (\<exists>fig results.
        on_generate mean sort_values times100 fmt cfg raw inp st =
          st\<lparr>session_fig := Some fig, session_df_result := Some results,
             session_graph_generated := True\<rparr>
        \<and> list_all2
            (\<lambda>pid row.
               case classify_asin mean
                      (sort_values
                         (filter (\<lambda>r. ASIN r = pid) (map (add_discount_pct times100) raw)))
                      (cfg_threshold_high cfg) 12 15 of
                 Inl e \<Rightarrow> False
               | Inr (letter, label, recommendation, color) \<Rightarrow>
                   res_ASIN row = pid
                   \<and> res_pattern row = letter @ ascii ''. '' @ label
                   \<and> res_recommendation row = recommendation)
            (unique (map ASIN (map (add_discount_pct times100) raw))) results
        \<and> list_all2
            (spec_trace_for mean sort_values (map (add_discount_pct times100) raw)
               (parse_names inp) (cfg_threshold_high cfg))
            (unique (map ASIN (map (add_discount_pct times100) raw))) (traces fig))"
proof -
  define df where "df = map (add_discount_pct times100) raw"
  define names where "names = parse_names inp"
  have same: "on_generate mean sort_values times100 fmt
           (cfg\<lparr>cfg_light_discount_max := a, cfg_deep_discount_min := b\<rparr>) raw inp st
     = on_generate mean sort_values times100 fmt cfg raw inp st"
    by (simp add: on_generate_def)
  obtain fig results where
    g: "generate_graph mean sort_values fmt df names (cfg_threshold_high cfg) (cfg_threshold_low cfg)
         = Inr (fig, results)"
    and rows: "list_all2 (spec_row_for mean sort_values df names (cfg_threshold_high cfg))
                 (unique (map ASIN df)) results"
    and trs: "list_all2 (spec_trace_for mean sort_values df names (cfg_threshold_high cfg))
                (unique (map ASIN df)) (traces fig)"
  proof -
    obtain trs rows where
      "generate_graph mean sort_values fmt df names (cfg_threshold_high cfg) (cfg_threshold_low cfg) =
        Inr (\<lparr>shapes =
              [HRect (cfg_threshold_high cfg) 50 (ascii ''green'') (1 / 10) (ascii ''below'') 0,
               HRect (- 30) (cfg_threshold_low cfg) (ascii ''red'') (1 / 10) (ascii ''below'') 0,
               HLine (cfg_threshold_low cfg) (ascii ''solid'') (ascii ''gray'') (3 / 2) None None,
               HLine (cfg_threshold_high cfg) (ascii ''dash'') (ascii ''green'') 2
                 (Some ([25512, 22888, 12478, 12540, 12531] @ ascii '' (''
                        @ [24382, 21147, 24615] @ ascii ''>'' @ fmt (cfg_threshold_high cfg) @ ascii '')''))
                 (Some (ascii ''top right''))],
            traces = trs,
            fig_layout = Some final_layout,
            xaxes = Some \<lparr>tickvals = Some [5, 10, 15, 20, 25], gridcolor = ascii ''lightgray'',
                           gridwidth = 1 / 2, axis_range = (3, 25)\<rparr>,
            yaxes = Some \<lparr>tickvals = None, gridcolor = ascii ''lightgray'',
                           gridwidth = 1 / 2, axis_range = (- 25, 50)\<rparr>\<rparr>, rows)"
      and "list_all2 (spec_row_for mean sort_values df names (cfg_threshold_high cfg))
             (unique (map ASIN df)) rows"
      and "list_all2 (spec_trace_for mean sort_values df names (cfg_threshold_high cfg))
             (unique (map ASIN df)) trs"
      using generate_graph_closed
        [of mean sort_values fmt df names "cfg_threshold_high cfg" "cfg_threshold_low cfg"]
      unfolding sorts_unique_ids [OF assms] by blast
    then show ?thesis
      using that by simp
  qed
  have run: "on_generate mean sort_values times100 fmt cfg raw inp st =
          st\<lparr>session_fig := Some fig, session_df_result := Some results,
             session_graph_generated := True\<rparr>"
    unfolding on_generate_def Let_def df_def [symmetric] names_def [symmetric] g by simp
  have "list_all2
            (\<lambda>pid row.
               case classify_asin mean (sort_values (filter (\<lambda>r. ASIN r = pid) df))
                      (cfg_threshold_high cfg) 12 15 of
                 Inl e \<Rightarrow> False
               | Inr (letter, label, recommendation, color) \<Rightarrow>
                   res_ASIN row = pid
                   \<and> res_pattern row = letter @ ascii ''. '' @ label
                   \<and> res_recommendation row = recommendation)
            (unique (map ASIN df)) results"
    using rows
    by (rule list_all2_mono) (auto simp add: spec_row_for_def Let_def split: sum.splits)
  with run same trs show ?thesis
    unfolding df_def names_def by blast
qed

text \<open>
  One observation at 17 percent with elasticity 30: the configured boundaries 10 and 20
  would give category D, the handler reports category A, as it does for 12 and 15.
\<close>

theorem on_generate_fixed_bands_witness:
  "on_generate arith_mean (sort_key discount_pct) (\<lambda>x. x * 100) (\<lambda>x. ascii ''10.0'')
      \<lparr>cfg_threshold_high = 10, cfg_threshold_low = 0,
       cfg_light_discount_max = 12, cfg_deep_discount_min = 15\<rparr>
      [\<lparr>ASIN = IdStr (ascii ''B0SAMPLE06''), discount = - 17 / 100, list_price = 900,
        demand_change = 5, elasticity = 30\<rparr>] []
      \<lparr>session_fig = None, session_df_result = None, session_graph_generated = False\<rparr>
   = on_generate arith_mean (sort_key discount_pct) (\<lambda>x. x * 100) (\<lambda>x. ascii ''10.0'')
      \<lparr>cfg_threshold_high = 10, cfg_threshold_low = 0,
       cfg_light_discount_max = 10, cfg_deep_discount_min = 20\<rparr>
      [\<lparr>ASIN = IdStr (ascii ''B0SAMPLE06''), discount = - 17 / 100, list_price = 900,
        demand_change = 5, elasticity = 30\<rparr>] []
      \<lparr>session_fig = None, session_df_result = None, session_graph_generated = False\<rparr>
   \<and> (\<exists>fig results.
        on_generate arith_mean (sort_key discount_pct) (\<lambda>x. x * 100) (\<lambda>x. ascii ''10.0'')
          \<lparr>cfg_threshold_high = 10, cfg_threshold_low = 0,
           cfg_light_discount_max = 10, cfg_deep_discount_min = 20\<rparr>
          [\<lparr>ASIN = IdStr (ascii ''B0SAMPLE06''), discount = - 17 / 100, list_price = 900,
            demand_change = 5, elasticity = 30\<rparr>] []
          \<lparr>session_fig = None, session_df_result = None, session_graph_generated = False\<rparr>
        = \<lparr>session_fig = Some fig, session_df_result = Some results,
           session_graph_generated = True\<rparr>
        \<and> map (\<lambda>r. (res_ASIN r, res_pattern r, res_recommendation r)) results
            = [(IdStr (ascii ''B0SAMPLE06''), ascii ''A. '' @ [38334, 20516, 31361, 30772, 22411],
                ascii ''20%'' @ [12458, 12501, 25512, 22888])])
   \<and> classify_asin arith_mean
        (map (add_discount_pct (\<lambda>x. x * 100))
          [\<lparr>ASIN = IdStr (ascii ''B0SAMPLE06''), discount = - 17 / 100, list_price = 900,
            demand_change = 5, elasticity = 30\<rparr>]) 10 10 20 = Inr result_D"
proof -
  define cfg where "cfg = \<lparr>cfg_threshold_high = 10, cfg_threshold_low = 0,
       cfg_light_discount_max = 10, cfg_deep_discount_min = 20\<rparr>"
  define raw where "raw = [\<lparr>ASIN = IdStr (ascii ''B0SAMPLE06''), discount = - 17 / 100,
        list_price = 900, demand_change = 5, elasticity = 30\<rparr>]"
  define st0 where
    "st0 = \<lparr>session_fig = None, session_df_result = None, session_graph_generated = False\<rparr>"
  define df where "df = map (add_discount_pct (\<lambda>x. x * 100)) raw"
  note t = on_generate_fixed_bands [OF sort_key_sorts, where mean = arith_mean
      and ?times100.0 = "\<lambda>x. x * 100" and fmt = "\<lambda>x. ascii ''10.0''" and cfg = cfg
      and a = 12 and b = 15 and raw = raw and inp = "[]" and st = st0, folded df_def]
  have ids: "unique (map ASIN df) = [IdStr (ascii ''B0SAMPLE06'')]"
    by (simp add: df_def raw_def add_discount_pct_def)
  have obs: "sort_key discount_pct (filter (\<lambda>r. ASIN r = IdStr (ascii ''B0SAMPLE06'')) df) = df"
    by (simp add: df_def raw_def add_discount_pct_def)
  have cA: "classify_asin arith_mean df 10 12 15 = Inr result_A"
    unfolding classify_asin_closed by (simp add: df_def raw_def add_discount_pct_def)
  have cD: "classify_asin arith_mean df 10 10 20 = Inr result_D"
    unfolding classify_asin_closed by (simp add: df_def raw_def add_discount_pct_def)
  from t have same: "on_generate arith_mean (sort_key discount_pct) (\<lambda>x. x * 100) (\<lambda>x. ascii ''10.0'')
      (cfg\<lparr>cfg_light_discount_max := 12, cfg_deep_discount_min := 15\<rparr>) raw [] st0
     = on_generate arith_mean (sort_key discount_pct) (\<lambda>x. x * 100) (\<lambda>x. ascii ''10.0'') cfg raw [] st0"
    by blast
  from t obtain fig results where
    run: "on_generate arith_mean (sort_key discount_pct) (\<lambda>x. x * 100) (\<lambda>x. ascii ''10.0'')
            cfg raw [] st0 =
          st0\<lparr>session_fig := Some fig, session_df_result := Some results,
             session_graph_generated := True\<rparr>"
    and rows: "list_all2
            (\<lambda>pid row.
               case classify_asin arith_mean
                      (sort_key discount_pct (filter (\<lambda>r. ASIN r = pid) df))
                      (cfg_threshold_high cfg) 12 15 of
                 Inl e \<Rightarrow> False
               | Inr (letter, label, recommendation, color) \<Rightarrow>
                   res_ASIN row = pid
                   \<and> res_pattern row = letter @ ascii ''. '' @ label
                   \<and> res_recommendation row = recommendation)
            (unique (map ASIN df)) results"
    by blast
  from rows obtain r where res: "results = [r]"
    and r: "res_ASIN r = IdStr (ascii ''B0SAMPLE06'')
        \<and> res_pattern r = fst result_A @ ascii ''. '' @ fst (snd result_A)
        \<and> res_recommendation r = fst (snd (snd result_A))"
    unfolding ids
    by (auto simp add: list_all2_Cons1 obs cfg_def cA case_prod_beta)
  then have "map (\<lambda>r. (res_ASIN r, res_pattern r, res_recommendation r)) results
            = [(IdStr (ascii ''B0SAMPLE06''), ascii ''A. '' @ [38334, 20516, 31361, 30772, 22411],
                ascii ''20%'' @ [12458, 12501, 25512, 22888])]"
    by (simp add: result_A_def ascii_def)
  with run same cD show ?thesis
    unfolding cfg_def raw_def st0_def df_def by auto
qed

section \<open>The lines of the name mapping\<close>

text \<open>
  Claim C7, as amended. A line that holds a tab is cut at its first tab, also when a
  comma stands before that tab; a line that holds no tab and a comma is cut at its first
  comma; the two parts are stripped and stored as product id and display name; a line
  with neither is passed over. The lines are those of the stripped input, taken in
  order, so a later line replaces an earlier one for the same id.
\<close>

theorem names_step_tab_first:
  "(9 \<notin> set a \<longrightarrow>
      names_step (a @ 9 # b) d = d(py_strip a \<mapsto> py_strip b))
   \<and> (9 \<notin> set a \<and> 9 \<notin> set b \<and> 44 \<notin> set a \<longrightarrow>
      names_step (a @ 44 # b) d = d(py_strip a \<mapsto> py_strip b))
   \<and> (9 \<notin> set line \<and> 44 \<notin> set line \<longrightarrow> names_step line d = d)
   \<and> parse_names inp =
       (if py_strip inp = [] then Map.empty
        else fold names_step (py_split 10 (py_strip inp)) Map.empty)"
proof -
  have tab: "names_step (a @ 9 # b) d = d(py_strip a \<mapsto> py_strip b)" if "9 \<notin> set a"
    using that by (simp add: names_step_def py_split1_at)
  have comma: "names_step (a @ 44 # b) d = d(py_strip a \<mapsto> py_strip b)"
    if "9 \<notin> set a" "9 \<notin> set b" "44 \<notin> set a"
    using that by (simp add: names_step_def py_split1_at)
  have neither: "names_step line d = d" if "9 \<notin> set line" "44 \<notin> set line"
    using that by (simp add: names_step_def)
  have strip_Nil: "py_strip [] = []"
    by (simp add: py_strip_def)
  have "parse_names inp =
       (if py_strip inp = [] then Map.empty
        else fold names_step (py_split 10 (py_strip inp)) Map.empty)"
    using strip_Nil by (auto simp add: parse_names_def)
  with tab comma neither show ?thesis by blast
qed

text \<open>
  A line with a comma before a tab, a line with a comma only, and a line with no
  separator.
\<close>

theorem names_step_tab_first_witness:
  "names_step (ascii ''A,b'' @ 9 # ascii ''c'') Map.empty
      = Map.empty(ascii ''A,b'' \<mapsto> ascii ''c'')
   \<and> names_step (ascii ''B0X '' @ 44 # ascii '' Tea'') Map.empty
      = Map.empty(ascii ''B0X'' \<mapsto> ascii ''Tea'')
   \<and> names_step (ascii ''B0X Tea'') Map.empty = Map.empty"
  using names_step_tab_first [of "ascii ''A,b''" "ascii ''c''" Map.empty "ascii ''B0X Tea''" "[]"]
    names_step_tab_first [of "ascii ''B0X ''" "ascii '' Tea''" Map.empty "ascii ''B0X Tea''" "[]"]
  by (simp add: ascii_def py_strip_def py_isspace_def)

text \<open>
  The claim as the specification states it cuts the line \<open>A,b<tab>c\<close> at the comma, the
  first of the two separators, and stores \<open>b<tab>c\<close> under \<open>A\<close>; \<open>names_step\<close> cuts it
  at the tab and stores \<open>c\<close> under \<open>A,b\<close>.
\<close>

theorem names_step_first_separator_counterexample:
  "spec_names_step (ascii ''A,b'' @ 9 # ascii ''c'') Map.empty (ascii ''A'')
      = Some (ascii ''b'' @ 9 # ascii ''c'')
   \<and> names_step (ascii ''A,b'' @ 9 # ascii ''c'') Map.empty (ascii ''A'') = None
   \<and> names_step (ascii ''A,b'' @ 9 # ascii ''c'') Map.empty (ascii ''A,b'') = Some (ascii ''c'')"
  by (simp add: names_step_def spec_names_step_def spec_is_sep_def py_split1_def
      ascii_def py_strip_def py_isspace_def)

end
